theory Spec2Isabelle
  imports Complex_Main "HOL-Library.Char_ord" "HOL-Library.List_Lexorder" "HOL-Library.Multiset"
begin

section \<open>Platform values: numbers, strings, dates\<close>

text \<open>
  The program is TypeScript. Its \<open>number\<close> values are modelled as \<^typ>\<open>real\<close> (time
  values in milliseconds as \<^typ>\<open>int\<close>), so rounding of doubles and Infinity are outside
  the model; NaN appears only where an optional value is \<open>None\<close>: the time value of an
  Invalid Date, and the duration in an object that is no entry.
  A \<open>string\<close> is a list of bytes (UTF-8); the case conversion and the white space of
  \<open>trim\<close> are the ASCII ones.
\<close>

definition digitVal :: "char \<Rightarrow> nat option" where
  "digitVal c = map_of (zip ''0123456789'' [0, 1, 2, 3, 4, 5, 6, 7, 8, 9]) c"

text \<open>A run of decimal digits read as a number; \<open>None\<close> when a character is no digit.\<close>

fun digitsVal :: "nat \<Rightarrow> string \<Rightarrow> nat option" where
  "digitsVal acc [] = Some acc"
| "digitsVal acc (c # cs) =
     (case digitVal c of None \<Rightarrow> None | Some d \<Rightarrow> digitsVal (10 * acc + d) cs)"

text \<open>
  \<open>new Date(`2000-01-01T${s}`).getTime()\<close> for a time of day \<open>s\<close> in one of the forms
  \<open>HH:mm\<close>, \<open>HH:mm:ss\<close> and \<open>HH:mm:ss.sss\<close> of the ECMAScript date-time string format
  (hours 00 to 24, minutes and seconds 00 to 59, hour 24 only as midnight), in milliseconds
  after the local midnight of the reference date. The epoch value of that midnight is
  the same for every call, so it cancels in the differences and comparisons the program
  makes. The entry type declares the clock fields as \<open>HH:mm\<close>. Other strings are not
  modelled and are taken as an Invalid Date: a time with a zone suffix, which the format
  also has, and the forms that the standard leaves to the engine.
\<close>

definition timeOfDayMs :: "nat \<Rightarrow> nat \<Rightarrow> nat \<Rightarrow> nat \<Rightarrow> int option" where
  "timeOfDayMs h m sec ms =
     (if m \<le> 59 \<and> sec \<le> 59 \<and> (h \<le> 23 \<or> (h = 24 \<and> m = 0 \<and> sec = 0 \<and> ms = 0))
      then Some (int (((h * 60 + m) * 60 + sec) * 1000 + ms)) else None)"

definition getTime2000 :: "string \<Rightarrow> int option" where
  "getTime2000 s =
     (case s of
        [h1, h2, c, m1, m2] \<Rightarrow>
          (if c = CHR '':'' then
             (case (digitsVal 0 [h1, h2], digitsVal 0 [m1, m2]) of
                (Some h, Some m) \<Rightarrow> timeOfDayMs h m 0 0
              | _ \<Rightarrow> None)
           else None)
      | [h1, h2, c, m1, m2, c', s1, s2] \<Rightarrow>
          (if c = CHR '':'' \<and> c' = CHR '':'' then
             (case (digitsVal 0 [h1, h2], digitsVal 0 [m1, m2], digitsVal 0 [s1, s2]) of
                (Some h, Some m, Some sec) \<Rightarrow> timeOfDayMs h m sec 0
              | _ \<Rightarrow> None)
           else None)
      | [h1, h2, c, m1, m2, c', s1, s2, dot, f1, f2, f3] \<Rightarrow>
          (if c = CHR '':'' \<and> c' = CHR '':'' \<and> dot = CHR ''.'' then
             (case (digitsVal 0 [h1, h2], digitsVal 0 [m1, m2], digitsVal 0 [s1, s2],
                    digitsVal 0 [f1, f2, f3]) of
                (Some h, Some m, Some sec, Some ms) \<Rightarrow> timeOfDayMs h m sec ms
              | _ \<Rightarrow> None)
           else None)
      | _ \<Rightarrow> None)"

subsection \<open>utils: durations\<close>

text \<open>
  \<open>getDurationMinutes\<close>: both times are parsed against the reference date; an Invalid
  Date on either side returns 0. The \<open>try\<close> block has no throwing statement, so the
  \<open>catch\<close> branch (which returns 0 too) is never taken and the function is total.
\<close>

definition getDurationMinutes :: "string \<Rightarrow> string \<Rightarrow> bool \<Rightarrow> real" where
  "getDurationMinutes clockIn clockOut lunch30 =
     (case (getTime2000 clockIn, getTime2000 clockOut) of
        (Some start, Some finish) \<Rightarrow>
          (let diffMins = real_of_int (finish - start) / (1000 * 60);
               diffMins' = (if lunch30 then diffMins - 30 else diffMins)
           in max 0 diffMins')
      | _ \<Rightarrow> 0)"

subsection \<open>utils: formatting minutes\<close>

definition digitChar :: "nat \<Rightarrow> char" where
  "digitChar d =
     (if d = 0 then CHR ''0'' else if d = 1 then CHR ''1'' else if d = 2 then CHR ''2''
      else if d = 3 then CHR ''3'' else if d = 4 then CHR ''4'' else if d = 5 then CHR ''5''
      else if d = 6 then CHR ''6'' else if d = 7 then CHR ''7'' else if d = 8 then CHR ''8''
      else CHR ''9'')"

text \<open>\<open>Number.prototype.toString\<close> on a natural number: its decimal digits.\<close>

function toStringNat :: "nat \<Rightarrow> string" where
  "toStringNat n = (if n < 10 then [digitChar n] else toStringNat (n div 10) @ [digitChar (n mod 10)])"
  by pat_completeness auto
termination
  by (relation "measure (\<lambda>n. n)") auto

declare toStringNat.simps [simp del]

definition padStart :: "nat \<Rightarrow> char \<Rightarrow> string \<Rightarrow> string" where
  "padStart n c s = replicate (n - length s) c @ s"

definition formatMinutesToHMM :: "real \<Rightarrow> string" where
  "formatMinutesToHMM totalMinutes =
     (let isNegative = totalMinutes < 0;
          absMinutes = nat \<lfloor>\<bar>totalMinutes\<bar>\<rfloor>;
          hours = absMinutes div 60;
          mins = absMinutes mod 60
      in (if isNegative then ''-'' else '''') @ toStringNat hours @ '':''
         @ padStart 2 (CHR ''0'') (toStringNat mins))"


section \<open>The data model (types)\<close>

record TimeEntry =
  id_entry :: string
  person_name :: string
  job_name :: string
  date :: string
  clock_in :: string
  clock_out :: string
  lunch_30_min :: bool
  notes_entry :: string
  created_at :: real
  duration_mins :: real

text \<open>\<open>Partial<TimeEntry>\<close>: every field may be absent (\<open>undefined\<close>).\<close>

record PartialTimeEntry =
  p_id :: "string option"
  p_person_name :: "string option"
  p_job_name :: "string option"
  p_date :: "string option"
  p_clock_in :: "string option"
  p_clock_out :: "string option"
  p_lunch_30_min :: "bool option"
  p_notes :: "string option"
  p_created_at :: "real option"
  p_duration_mins :: "real option"

definition partialOf :: "TimeEntry \<Rightarrow> PartialTimeEntry" where
  "partialOf e =
     \<lparr>p_id = Some (id_entry e), p_person_name = Some (person_name e),
      p_job_name = Some (job_name e), p_date = Some (date e),
      p_clock_in = Some (clock_in e), p_clock_out = Some (clock_out e),
      p_lunch_30_min = Some (lunch_30_min e), p_notes = Some (notes_entry e),
      p_created_at = Some (created_at e), p_duration_mins = Some (duration_mins e)\<rparr>"

record ActiveSession =
  s_person_name :: string
  s_job_name :: string
  startTime :: real
  accumulatedMsBeforeThisSession :: real

section \<open>utils: validateEntry\<close>

text \<open>\<open>!v\<close> for an optional string: absent or empty.\<close>

definition falsy :: "string option \<Rightarrow> bool" where
  "falsy v = (v = None \<or> v = Some [])"

text \<open>A value inside a template literal; \<open>undefined\<close> prints as its name.\<close>

definition templateStr :: "string option \<Rightarrow> string" where
  "templateStr v = (case v of Some s \<Rightarrow> s | None \<Rightarrow> ''undefined'')"

definition validateEntry :: "PartialTimeEntry \<Rightarrow> string option" where
  "validateEntry e =
     (if falsy (p_person_name e) then Some ''Worker name is required''
      else if falsy (p_date e) then Some ''Date is required''
      else if falsy (p_clock_in e) then Some ''Clock-in time is required''
      else if falsy (p_clock_out e) then Some ''Clock-out time is required''
      else
        (let start = getTime2000 (templateStr (p_clock_in e));
             finish = getTime2000 (templateStr (p_clock_out e))
         in case start of
              None \<Rightarrow> Some ''Invalid clock-in time''
            | Some st \<Rightarrow>
                (case finish of
                   None \<Rightarrow> Some ''Invalid clock-out time''
                 | Some fi \<Rightarrow>
                     (if fi \<le> st then Some ''Clock-out must be after clock-in'' else None))))"

section \<open>BulkImport: the line parser\<close>

text \<open>
  A string of ASCII characters only. On such a string the bytes are the code units, so
  \<open>substring\<close>, \<open>trim\<close> and \<open>toLowerCase\<close> are exactly the functions below.
\<close>

definition isAscii :: "string \<Rightarrow> bool" where
  "isAscii s = list_all (\<lambda>c. \<not> digit7 c) s"

definition isSpace :: "char \<Rightarrow> bool" where
  "isSpace c =
     (c = CHR '' '' \<or> c = CHR 0x09 \<or> c = CHR 0x0A \<or> c = CHR 0x0B \<or> c = CHR 0x0C
      \<or> c = CHR 0x0D)"

definition trim :: "string \<Rightarrow> string" where
  "trim s = rev (dropWhile isSpace (rev (dropWhile isSpace s)))"

text \<open>\<open>s.split(c)\<close> for a one-character separator: the empty string gives one empty field.\<close>

fun splitOn :: "char \<Rightarrow> string \<Rightarrow> string list" where
  "splitOn sep [] = [[]]"
| "splitOn sep (c # cs) =
     (if c = sep then [] # splitOn sep cs
      else (case splitOn sep cs of p # ps \<Rightarrow> (c # p) # ps | [] \<Rightarrow> [[c]]))"

text \<open>
  \<open>s.split(/[-\<dots>]/)\<close>, the class holding the hyphen, the en dash (U+2013, bytes
  E2 80 93) and the em dash (U+2014, bytes E2 80 94).
\<close>

fun splitDash :: "string \<Rightarrow> string list" where
  "splitDash [] = [[]]"
| "splitDash (c # cs) =
     (if c = CHR ''-'' then [] # splitDash cs
      else if c = CHR 0xE2 \<and> (take 2 cs = [CHR 0x80, CHR 0x93] \<or> take 2 cs = [CHR 0x80, CHR 0x94])
      then [] # splitDash (drop 2 cs)
      else (case splitDash cs of p # ps \<Rightarrow> (c # p) # ps | [] \<Rightarrow> [[c]]))"

definition toLowerChar :: "char \<Rightarrow> char" where
  "toLowerChar c =
     (case map_of (zip ''ABCDEFGHIJKLMNOPQRSTUVWXYZ'' ''abcdefghijklmnopqrstuvwxyz'') c of
        Some l \<Rightarrow> l
      | None \<Rightarrow> c)"

definition toLowerCase :: "string \<Rightarrow> string" where
  "toLowerCase s = map toLowerChar s"

fun startsWith :: "string \<Rightarrow> string \<Rightarrow> bool" where
  "startsWith [] s = True"
| "startsWith (a # as) [] = False"
| "startsWith (a # as) (c # cs) = (a = c \<and> startsWith as cs)"

text \<open>
  \<open>/a1|a2|.../.test(s)\<close> for literal alternatives: some position of \<open>s\<close> starts
  with one of them.
\<close>

fun regexTest :: "string list \<Rightarrow> string \<Rightarrow> bool" where
  "regexTest alts [] = list_ex (\<lambda>a. startsWith a []) alts"
| "regexTest alts (c # cs) = (list_ex (\<lambda>a. startsWith a (c # cs)) alts \<or> regexTest alts cs)"

definition lunchPattern :: "string list" where
  "lunchPattern = [''lunch'', ''break'', ''30'', ''30min'', ''0:30'']"

definition nthOpt :: "'a list \<Rightarrow> nat \<Rightarrow> 'a option" where
  "nthOpt xs i = (if i < length xs then Some (xs ! i) else None)"

text \<open>\<open>v || d\<close> for an optional string.\<close>

definition orDefault :: "string option \<Rightarrow> string \<Rightarrow> string" where
  "orDefault v d = (case v of None \<Rightarrow> d | Some s \<Rightarrow> (if s = [] then d else s))"

text \<open>
  One result of the parse. \<open>entry = None\<close> stands for the empty object \<open>{}\<close> that a
  badly formatted line stores in place of an entry.
\<close>

record ParseResult =
  entry :: "TimeEntry option"
  error :: "string option"

text \<open>
  The body of \<open>lines.forEach\<close> in \<open>handleParse\<close>, as the result it pushes.
  \<open>uuid\<close> is the value of \<open>crypto.randomUUID()\<close> and \<open>now\<close> of \<open>Date.now()\<close>.
\<close>

definition parseLine :: "string \<Rightarrow> real \<Rightarrow> string \<Rightarrow> ParseResult" where
  "parseLine uuid now line =
     (let parts = map trim (splitOn (CHR ''|'') line)
      in if length parts < 3
         then \<lparr>entry = None,
               error = Some (''Invalid format: '' @ [CHR 0x22] @ take 30 line @ ''...'' @ [CHR 0x22])\<rparr>
         else
           (let name = parts ! 0;
                dateStr = parts ! 1;
                timeRange = parts ! 2;
                hasLunch = regexTest lunchPattern (toLowerCase line);
                halves = map trim (splitDash timeRange);
                clockIn = nthOpt halves 0;
                clockOut = nthOpt halves 1;
                e = \<lparr>id_entry = uuid, person_name = name, job_name = ''Bulk Import'',
                     date = dateStr,
                     clock_in = orDefault clockIn ''00:00'',
                     clock_out = orDefault clockOut ''00:00'',
                     lunch_30_min = hasLunch,
                     notes_entry = ''Bulk imported line: '' @ line,
                     created_at = now,
                     duration_mins =
                       getDurationMinutes (orDefault clockIn ''00:00'')
                         (orDefault clockOut ''00:00'') hasLunch\<rparr>
            in \<lparr>entry = Some e, error = validateEntry (partialOf e)\<rparr>))"

text \<open>
  \<open>handleParse\<close>: the non-blank lines of the input, each parsed; the \<open>i\<close>-th of them
  draws the identifier \<open>uuids i\<close> and the clock reading \<open>nows i\<close>.
\<close>

definition handleParse :: "(nat \<Rightarrow> string) \<Rightarrow> (nat \<Rightarrow> real) \<Rightarrow> string \<Rightarrow> ParseResult list" where
  "handleParse uuids nows inputText =
     (let lines = filter (\<lambda>line. trim line \<noteq> []) (splitOn (CHR 0x0A) inputText)
      in map (\<lambda>(i, line). parseLine (uuids i) (nows i) line) (enumerate 0 lines))"

text \<open>
  \<open>confirmImport\<close>: the entries handed to \<open>onImport\<close>, or \<open>None\<close> when \<open>onImport\<close> is
  not called.
\<close>

definition confirmImport :: "ParseResult list \<Rightarrow> TimeEntry option list option" where
  "confirmImport results =
     (let validEntries = map entry (filter (\<lambda>r. falsy (error r)) results)
      in if length validEntries > 0 then Some validEntries else None)"

section \<open>Reference definitions, following the specification's wording\<close>

text \<open>
  \<open>minutesToHoursString\<close> as the specification words it: the minutes are truncated
  toward zero, the magnitude is written as \<open>H:MM\<close> with a two-digit minutes field, and
  a negative input gets a leading minus sign.
\<close>

definition truncTowardZero :: "real \<Rightarrow> int" where
  "truncTowardZero m = (if 0 \<le> m then \<lfloor>m\<rfloor> else \<lceil>m\<rceil>)"

definition twoDigits :: "nat \<Rightarrow> string" where
  "twoDigits n = [digitChar (n div 10), digitChar (n mod 10)]"

definition formatHMM :: "nat \<Rightarrow> string" where
  "formatHMM n = toStringNat (n div 60) @ '':'' @ twoDigits (n mod 60)"

definition minutesToHoursString_spec :: "real \<Rightarrow> string" where
  "minutesToHoursString_spec m =
     (if m < 0 then ''-'' else '''') @ formatHMM (nat \<bar>truncTowardZero m\<bar>)"

text \<open>
  The Entry Validator as the specification words it: a fixed list of rules, each with
  its failure condition and its message, of which the first failing one is reported.
\<close>

fun firstFailure :: "(bool \<times> string) list \<Rightarrow> string option" where
  "firstFailure [] = None"
| "firstFailure ((failed, msg) # rules) = (if failed then Some msg else firstFailure rules)"

definition strictlyAfter :: "int option \<Rightarrow> int option \<Rightarrow> bool" where
  "strictlyAfter out inn = (case (out, inn) of (Some fi, Some st) \<Rightarrow> st < fi | _ \<Rightarrow> False)"

definition validationRules :: "PartialTimeEntry \<Rightarrow> (bool \<times> string) list" where
  "validationRules e =
     [(falsy (p_person_name e), ''Worker name is required''),
      (falsy (p_date e), ''Date is required''),
      (falsy (p_clock_in e), ''Clock-in time is required''),
      (falsy (p_clock_out e), ''Clock-out time is required''),
      (getTime2000 (templateStr (p_clock_in e)) = None, ''Invalid clock-in time''),
      (getTime2000 (templateStr (p_clock_out e)) = None, ''Invalid clock-out time''),
      (\<not> strictlyAfter (getTime2000 (templateStr (p_clock_out e)))
           (getTime2000 (templateStr (p_clock_in e))),
       ''Clock-out must be after clock-in'')]"

text \<open>Sample identifier and clock supplies for the worked examples.\<close>

definition exampleUuids :: "nat \<Rightarrow> string" where
  "exampleUuids i = ''entry-'' @ toStringNat i"

definition exampleClock :: "nat \<Rightarrow> real" where
  "exampleClock i = 1767225600000 + real i"

section \<open>Objects used as dictionaries\<close>

text \<open>
  \<open>Record<string, V>\<close> values are plain objects. A read \<open>obj[k]\<close> finds an own property
  or, failing that, a member inherited from \<open>Object.prototype\<close>; the program tests such
  reads for truthiness, and an inherited member (a function, or \<open>Object.prototype\<close>
  itself under \<open>__proto__\<close>) is truthy. \<open>Object.prototype\<close> is taken in its initial
  state, with the members the standard gives it.
\<close>

datatype 'v property = Own 'v | Inherited | Absent

definition objectPrototypeMembers :: "string list" where
  "objectPrototypeMembers =
     [''constructor'', ''__defineGetter__'', ''__defineSetter__'', ''hasOwnProperty'',
      ''__lookupGetter__'', ''__lookupSetter__'', ''isPrototypeOf'', ''propertyIsEnumerable'',
      ''toString'', ''valueOf'', ''__proto__'', ''toLocaleString'']"

definition getProperty :: "(string \<rightharpoonup> 'v) \<Rightarrow> string \<Rightarrow> 'v property" where
  "getProperty obj k =
     (case obj k of
        Some v \<Rightarrow> Own v
      | None \<Rightarrow> (if k \<in> set objectPrototypeMembers then Inherited else Absent))"

text \<open>
  Where the program goes on with an inherited member in place of a value of its data
  model, the model stops with a fault that says what the source does next:
  \<^item> \<open>MalformedUpsert doc\<close>: \<open>upsertEntry\<close> is called with the object \<open>doc\<close>, which is
    no \<open>TimeEntry\<close> (an absent field is \<open>undefined\<close>, an absent duration is NaN);
  \<^item> \<open>TypeErrorAt k\<close>: a \<open>TypeError\<close> is thrown while the member under \<open>k\<close> is used as
    a daily summary;
  \<^item> \<open>InheritedMember k\<close>: the member under \<open>k\<close> is written to as if it were a
    dictionary, which the model does not follow.
\<close>

datatype fault =
    MalformedUpsert PartialTimeEntry
  | TypeErrorAt string
  | InheritedMember string

section \<open>utils: the Toronto date and time\<close>

text \<open>
  What one call reads from the platform: the readings of \<open>Date.now()\<close> (two in
  \<open>handleClockOut\<close>) and of \<open>new Date()\<close> inside \<open>getTorontoDate\<close> (one call for the
  date, one for the time of day), the random identifier, the UTC offset of
  \<open>America/Toronto\<close> at an instant, the UTC offset the host's own time zone gives to a
  local wall-clock time, both in milliseconds, and the \<open>toLocaleTimeString\<close> rendering of
  an instant in the Toronto zone.
\<close>

record Platform =
  dateNow :: int
  dateNowLater :: int
  newDate :: int
  newDateLater :: int
  randomUUID :: string
  torontoOffsetAt :: "int \<Rightarrow> int"
  hostOffsetFor :: "int \<Rightarrow> int"
  localeTimeString :: "real \<Rightarrow> string"

text \<open>
  The calendar date of a day number (days since 1970-01-01) in the proleptic Gregorian
  calendar, and its rendering by \<open>toISOString\<close> up to the \<open>T\<close>: four digits for the years
  0 to 9999, a sign and six digits otherwise.
\<close>

definition civilFromDays :: "int \<Rightarrow> int \<times> int \<times> int" where
  "civilFromDays days =
     (let z = days + 719468;
          era = z div 146097;
          doe = z mod 146097;
          yoe = (doe - doe div 1460 + doe div 36524 - doe div 146096) div 365;
          doy = doe - (365 * yoe + yoe div 4 - yoe div 100);
          mp = (5 * doy + 2) div 153;
          d = doy - (153 * mp + 2) div 5 + 1;
          m = (if mp < 10 then mp + 3 else mp - 9);
          y = yoe + era * 400 + (if m \<le> 2 then 1 else 0)
      in (y, m, d))"

definition isoYear :: "int \<Rightarrow> string" where
  "isoYear y =
     (if 0 \<le> y \<and> y \<le> 9999 then padStart 4 (CHR ''0'') (toStringNat (nat y))
      else (if y < 0 then ''-'' else ''+'') @ padStart 6 (CHR ''0'') (toStringNat (nat \<bar>y\<bar>)))"

fun isoDate :: "int \<times> int \<times> int \<Rightarrow> string" where
  "isoDate (y, m, d) =
     isoYear y @ ''-'' @ padStart 2 (CHR ''0'') (toStringNat (nat m))
     @ ''-'' @ padStart 2 (CHR ''0'') (toStringNat (nat d))"

definition isoDateString :: "int \<Rightarrow> string" where
  "isoDateString days = isoDate (civilFromDays days)"

text \<open>
  \<open>getTorontoDate\<close> prints the instant as a Toronto wall-clock time (to the second) and
  gives that text to \<open>new Date\<close>, which reads it as a local time of the host. The result
  is the instant whose host-local wall clock shows the Toronto time.
\<close>

definition torontoWallClock :: "Platform \<Rightarrow> int \<Rightarrow> int" where
  "torontoWallClock pf t = (t + torontoOffsetAt pf t) div 1000 * 1000"

definition getTorontoDate :: "Platform \<Rightarrow> int \<Rightarrow> int" where
  "getTorontoDate pf t = torontoWallClock pf t - hostOffsetFor pf (torontoWallClock pf t)"

text \<open>\<open>getTorontoISODate\<close>: \<open>toISOString\<close> prints the date of that instant in UTC.\<close>

definition getTorontoISODate :: "Platform \<Rightarrow> int \<Rightarrow> string" where
  "getTorontoISODate pf t = isoDateString (getTorontoDate pf t div 86400000)"

text \<open>
  \<open>getTorontoTimeString\<close>: \<open>toTimeString\<close> prints the host-local time of day of that
  instant, which is the Toronto wall-clock time again.
\<close>

definition getTorontoTimeString :: "Platform \<Rightarrow> int \<Rightarrow> string" where
  "getTorontoTimeString pf t =
     (let localTime = getTorontoDate pf t + hostOffsetFor pf (torontoWallClock pf t)
      in padStart 2 (CHR ''0'') (toStringNat (nat (localTime div 3600000 mod 24))) @ '':''
         @ padStart 2 (CHR ''0'') (toStringNat (nat (localTime div 60000 mod 60))))"

text \<open>
  The date in the operating time zone, for comparison: the calendar date of the Toronto
  wall clock.
\<close>

definition torontoToday :: "Platform \<Rightarrow> int \<Rightarrow> string" where
  "torontoToday pf t = isoDateString ((t + torontoOffsetAt pf t) div 86400000)"

section \<open>App: the application state and its operations\<close>

text \<open>
  The state of the \<open>App\<close> component together with the entries collection of the
  signed-in user in the remote store. \<open>entries\<close> is the in-memory copy that the
  snapshot listener replaces; the write helpers change only the remote collection
  \<open>entriesDb\<close>, a map from document id to entry. A write is modelled by its completed
  effect (the program does not await it and only logs a failure).
  \<open>activeSessions\<close> holds the own properties of the sessions object.
\<close>

record AppState =
  user :: "string option"
  entries :: "TimeEntry list"
  people :: "string list"
  jobs :: "string list"
  activeSessions :: "string \<rightharpoonup> ActiveSession"
  entriesDb :: "string \<rightharpoonup> TimeEntry"

definition upsertEntry :: "TimeEntry \<Rightarrow> AppState \<Rightarrow> AppState" where
  "upsertEntry e st =
     (if user st = None then st
      else st\<lparr>entriesDb := (entriesDb st)(id_entry e \<mapsto> e)\<rparr>)"

definition removeEntry :: "string \<Rightarrow> AppState \<Rightarrow> AppState" where
  "removeEntry i st =
     (if user st = None then st
      else st\<lparr>entriesDb := (entriesDb st)(i := None)\<rparr>)"

text \<open>The default \<open>Array.prototype.sort\<close> on strings: ascending by code unit.\<close>

definition addPerson :: "string \<Rightarrow> AppState \<Rightarrow> AppState" where
  "addPerson name st =
     (if name \<noteq> [] \<and> name \<notin> set (people st)
      then st\<lparr>people := sort (people st @ [name])\<rparr> else st)"

definition addJob :: "string \<Rightarrow> AppState \<Rightarrow> AppState" where
  "addJob name st =
     (if name \<noteq> [] \<and> name \<notin> set (jobs st)
      then st\<lparr>jobs := sort (jobs st @ [name])\<rparr> else st)"

text \<open>
  \<open>handleClockIn\<close>. The new session is written with a computed key, which creates an
  own property whatever the name.
\<close>

definition handleClockIn :: "Platform \<Rightarrow> string \<Rightarrow> string \<Rightarrow> AppState \<Rightarrow> AppState" where
  "handleClockIn pf person job st =
     (let today = getTorontoISODate pf (newDate pf);
          accumulatedMinsToday =
            foldl (\<lambda>acc curr. acc + duration_mins curr) 0
              (filter (\<lambda>e. person_name e = person \<and> date e = today) (entries st))
      in st\<lparr>activeSessions := (activeSessions st)(person \<mapsto>
              \<lparr>s_person_name = person, s_job_name = job,
               startTime = real_of_int (dateNow pf),
               accumulatedMsBeforeThisSession = accumulatedMinsToday * 60 * 1000\<rparr>)\<rparr>)"

text \<open>
  \<open>handleClockOut\<close>. \<open>activeSessions[person]\<close> is read with inherited members in
  view: with no session of that name and an inherited member under it, \<open>!session\<close> is
  false and the function does not return. It takes \<open>startTime\<close> and \<open>job_name\<close> from
  the member, where both are \<open>undefined\<close>, so the duration is NaN, the clock-in text is
  that of an Invalid Date, and the object goes to \<open>upsertEntry\<close>.
  \<open>clockOutEntry\<close> is the entry built from a session.
\<close>

definition clockOutEntry :: "Platform \<Rightarrow> string \<Rightarrow> ActiveSession \<Rightarrow> TimeEntry" where
  "clockOutEntry pf person session =
     (let endTime = real_of_int (dateNow pf);
          durationMs = endTime - startTime session;
          durationMins = durationMs / (1000 * 60)
      in \<lparr>id_entry = randomUUID pf, person_name = person,
          job_name = s_job_name session,
          date = getTorontoISODate pf (newDate pf),
          clock_in = localeTimeString pf (startTime session),
          clock_out = getTorontoTimeString pf (newDateLater pf),
          lunch_30_min = False,
          notes_entry = ''Session: '' @ s_job_name session,
          created_at = real_of_int (dateNowLater pf), duration_mins = durationMins\<rparr>)"

definition handleClockOut :: "Platform \<Rightarrow> string \<Rightarrow> AppState \<Rightarrow> fault + AppState" where
  "handleClockOut pf person st =
     (case getProperty (activeSessions st) person of
        Absent \<Rightarrow> Inr st
      | Inherited \<Rightarrow>
          Inl (MalformedUpsert
                \<lparr>p_id = Some (randomUUID pf), p_person_name = Some person,
                 p_job_name = None,
                 p_date = Some (getTorontoISODate pf (newDate pf)),
                 p_clock_in = Some ''Invalid Date'',
                 p_clock_out = Some (getTorontoTimeString pf (newDateLater pf)),
                 p_lunch_30_min = Some False,
                 p_notes = Some ''Session: undefined'',
                 p_created_at = Some (real_of_int (dateNowLater pf)),
                 p_duration_mins = None\<rparr>)
      | Own session \<Rightarrow>
          (let newEntry = clockOutEntry pf person session;
               st1 = upsertEntry newEntry st
           in Inr (st1\<lparr>activeSessions := (activeSessions st1)(person := None)\<rparr>)))"

text \<open>
  \<open>approveEntries\<close>: \<open>answer\<close> is what the user answers to the \<open>confirm\<close> prompt. The
  removals are issued in the order of \<open>ids\<close>; each is an independent delete.
\<close>

definition approveEntries :: "bool \<Rightarrow> string list \<Rightarrow> AppState \<Rightarrow> AppState" where
  "approveEntries answer ids st = (if \<not> answer then st else fold removeEntry ids st)"

text \<open>
  A sample state (two stored entries, one open session, a signed-in user) and two
  platforms whose host runs in the Toronto zone in winter (UTC-5): one at 05:30 Toronto
  time on 2024-01-01, one at 20:30 Toronto time on the same day, which is 01:30 UTC on
  2024-01-02.
\<close>

definition exampleEntryA :: TimeEntry where
  "exampleEntryA =
     \<lparr>id_entry = ''e1'', person_name = ''Alice'', job_name = ''Maintenance'',
      date = ''2024-01-01'', clock_in = ''08:00'', clock_out = ''09:00'',
      lunch_30_min = False, notes_entry = '''', created_at = 1704099600000,
      duration_mins = 60\<rparr>"

definition exampleEntryB :: TimeEntry where
  "exampleEntryB =
     \<lparr>id_entry = ''e2'', person_name = ''Bob'', job_name = ''Site Survey'',
      date = ''2024-01-02'', clock_in = ''10:00'', clock_out = ''10:45'',
      lunch_30_min = False, notes_entry = '''', created_at = 1704192300000,
      duration_mins = 45\<rparr>"

definition exampleState :: AppState where
  "exampleState =
     \<lparr>user = Some ''uid-1'',
      entries = [exampleEntryB, exampleEntryA],
      people = [''Alice'', ''Bob''],
      jobs = [''General Construction'', ''Maintenance'', ''Site Survey''],
      activeSessions = [''Alice'' \<mapsto>
        \<lparr>s_person_name = ''Alice'', s_job_name = ''Maintenance'',
         startTime = 1704103200000, accumulatedMsBeforeThisSession = 3600000\<rparr>],
      entriesDb = [''e1'' \<mapsto> exampleEntryA, ''e2'' \<mapsto> exampleEntryB]\<rparr>"

definition examplePlatform :: Platform where
  "examplePlatform =
     \<lparr>dateNow = 1704105000000, dateNowLater = 1704105000001,
      newDate = 1704105000000, newDateLater = 1704105000000, randomUUID = ''e3'',
      torontoOffsetAt = (\<lambda>t. - 18000000), hostOffsetFor = (\<lambda>w. - 18000000),
      localeTimeString = (\<lambda>t. ''05:00'')\<rparr>"

definition eveningPlatform :: Platform where
  "eveningPlatform =
     \<lparr>dateNow = 1704159000000, dateNowLater = 1704159000001,
      newDate = 1704159000000, newDateLater = 1704159000000, randomUUID = ''e5'',
      torontoOffsetAt = (\<lambda>t. - 18000000), hostOffsetFor = (\<lambda>w. - 18000000),
      localeTimeString = (\<lambda>t. ''20:00'')\<rparr>"

section \<open>Report: reportData\<close>

text \<open>
  \<open>new Date(s).getTime()\<close> for a calendar date \<open>s\<close> in the form \<open>YYYY-MM-DD\<close> of the
  ECMAScript date-time string format: the milliseconds from the epoch to that day's
  midnight in UTC. The day number follows the standard's \<open>DayFromYear\<close> and month
  table. The entry type declares the date as \<open>YYYY-MM-DD\<close>. A month outside 1..12 or a
  day outside the month is no date of the format, and the model has an Invalid Date for
  it, as for every string in another form (the year and year-month forms of the format,
  date-times, and what the standard leaves to the engine), which it does not follow.
\<close>

definition isLeapYear :: "nat \<Rightarrow> bool" where
  "isLeapYear y = (y mod 4 = 0 \<and> (y mod 100 \<noteq> 0 \<or> y mod 400 = 0))"

definition daysInMonth :: "nat \<Rightarrow> nat \<Rightarrow> nat" where
  "daysInMonth y m =
     (if m = 2 then (if isLeapYear y then 29 else 28)
      else if m = 4 \<or> m = 6 \<or> m = 9 \<or> m = 11 then 30 else 31)"

definition dayFromYear :: "int \<Rightarrow> int" where
  "dayFromYear y = 365 * (y - 1970) + (y - 1969) div 4 - (y - 1901) div 100 + (y - 1601) div 400"

definition daysBeforeMonth :: "nat \<Rightarrow> nat \<Rightarrow> nat" where
  "daysBeforeMonth y m =
     [0, 31, 59, 90, 120, 151, 181, 212, 243, 273, 304, 334] ! (m - 1)
     + (if isLeapYear y \<and> 3 \<le> m then 1 else 0)"

definition dateGetTime :: "string \<Rightarrow> int option" where
  "dateGetTime s =
     (case s of
        [y1, y2, y3, y4, sep1, m1, m2, sep2, d1, d2] \<Rightarrow>
          (if sep1 = CHR ''-'' \<and> sep2 = CHR ''-'' then
             (case (digitsVal 0 [y1, y2, y3, y4], digitsVal 0 [m1, m2], digitsVal 0 [d1, d2]) of
                (Some y, Some m, Some d) \<Rightarrow>
                  (if 1 \<le> m \<and> m \<le> 12 \<and> 1 \<le> d \<and> d \<le> daysInMonth y m
                   then Some ((dayFromYear (int y) + int (daysBeforeMonth y m) + int d - 1)
                              * 86400000)
                   else None)
              | _ \<Rightarrow> None)
           else None)
      | _ \<Rightarrow> None)"

text \<open>\<open>a >= b\<close> and \<open>a <= b\<close> on time values; a comparison with NaN is false.\<close>

definition timeGe :: "int option \<Rightarrow> int option \<Rightarrow> bool" where
  "timeGe a b = (case (a, b) of (Some x, Some y) \<Rightarrow> y \<le> x | _ \<Rightarrow> False)"

definition timeLe :: "int option \<Rightarrow> int option \<Rightarrow> bool" where
  "timeLe a b = (case (a, b) of (Some x, Some y) \<Rightarrow> x \<le> y | _ \<Rightarrow> False)"

record DailySummary =
  ds_date :: string
  ds_duration_mins :: real
  job_names :: "string list"
  entryIds :: "string list"

record PersonReport =
  pr_person_name :: string
  dailySummaries :: "DailySummary list"
  totalMins :: real
  allIds :: "string list"

text \<open>
  An object used as a dictionary whose property order matters: its own properties in the
  order of their creation. A read goes through \<open>getProperty\<close>, so it also finds the
  inherited members.
\<close>

type_synonym 'v jsobject = "(string \<times> 'v) list"

text \<open>\<open>obj[k] = v\<close>: an existing property keeps its place, a new one goes last.\<close>

fun objSet :: "string \<Rightarrow> 'v \<Rightarrow> 'v jsobject \<Rightarrow> 'v jsobject" where
  "objSet k v [] = [(k, v)]"
| "objSet k v (p # ps) = (if fst p = k then (k, v) # ps else p # objSet k v ps)"

text \<open>
  The property order of \<open>Object.entries\<close> and \<open>Object.values\<close>: array indices
  (canonical decimal strings below \<open>2^32 - 1\<close>) first, ascending, then the other names
  in creation order.
\<close>

definition arrayIndexOf :: "string \<Rightarrow> nat option" where
  "arrayIndexOf k =
     (case k of
        [] \<Rightarrow> None
      | c # cs \<Rightarrow>
          (case digitsVal 0 (c # cs) of
             None \<Rightarrow> None
           | Some n \<Rightarrow> (if (cs = [] \<or> c \<noteq> CHR ''0'') \<and> n < 4294967295 then Some n else None)))"

definition objectEntries :: "'v jsobject \<Rightarrow> (string \<times> 'v) list" where
  "objectEntries obj =
     sort_key (\<lambda>p. case arrayIndexOf (fst p) of Some n \<Rightarrow> n | None \<Rightarrow> 0)
       (filter (\<lambda>p. arrayIndexOf (fst p) \<noteq> None) obj)
     @ filter (\<lambda>p. arrayIndexOf (fst p) = None) obj"

definition objectValues :: "'v jsobject \<Rightarrow> 'v list" where
  "objectValues obj = map snd (objectEntries obj)"

text \<open>
  \<open>Array.prototype.sort\<close> with a comparator: a stable sort; \<open>a\<close> stays before \<open>b\<close>
  unless the comparator is positive. For a consistent comparator every stable sort
  returns this list.
\<close>

fun insertSorted :: "('a \<Rightarrow> 'a \<Rightarrow> int) \<Rightarrow> 'a \<Rightarrow> 'a list \<Rightarrow> 'a list" where
  "insertSorted cmp x [] = [x]"
| "insertSorted cmp x (y # ys) =
     (if cmp x y \<le> 0 then x # y # ys else y # insertSorted cmp x ys)"

definition jsSort :: "('a \<Rightarrow> 'a \<Rightarrow> int) \<Rightarrow> 'a list \<Rightarrow> 'a list" where
  "jsSort cmp xs = foldr (insertSorted cmp) xs []"

text \<open>The filter of \<open>reportData\<close>; an empty bound is no bound.\<close>

definition matchesFilter :: "string \<Rightarrow> string \<Rightarrow> string \<Rightarrow> TimeEntry \<Rightarrow> bool" where
  "matchesFilter filterPerson filterDateStart filterDateEnd e =
     (let matchesPerson = (filterPerson = ''All'' \<or> person_name e = filterPerson);
          entryDate = dateGetTime (date e);
          matchesStart = (filterDateStart = [] \<or> timeGe entryDate (dateGetTime filterDateStart));
          matchesEnd = (filterDateEnd = [] \<or> timeLe entryDate (dateGetTime filterDateEnd))
      in matchesPerson \<and> matchesStart \<and> matchesEnd)"

text \<open>
  The body of \<open>filtered.forEach\<close>. \<open>takeIn\<close> is its second half: the day's summary
  takes the entry in. \<open>addToDays\<close> works on the person's dictionary of days: the day's
  summary is created when \<open>days[entry.date]\<close> is falsy. When the date names an inherited
  member, that member is taken for the summary and \<open>day.entryIds.push\<close> throws a
  \<open>TypeError\<close>, as the member has no \<open>entryIds\<close>.
\<close>

definition takeIn :: "TimeEntry \<Rightarrow> DailySummary \<Rightarrow> DailySummary" where
  "takeIn e day =
     day\<lparr>ds_duration_mins := ds_duration_mins day + duration_mins e,
         entryIds := entryIds day @ [id_entry e],
         job_names := (if job_name e \<in> set (job_names day) then job_names day
                       else job_names day @ [job_name e])\<rparr>"

definition addToDays :: "TimeEntry \<Rightarrow> DailySummary jsobject \<Rightarrow> fault + DailySummary jsobject" where
  "addToDays e days =
     (case getProperty (map_of days) (date e) of
        Absent \<Rightarrow>
          Inr (objSet (date e)
                 (takeIn e \<lparr>ds_date = date e, ds_duration_mins = 0, job_names = [],
                            entryIds = []\<rparr>) days)
      | Own day \<Rightarrow> Inr (objSet (date e) (takeIn e day) days)
      | Inherited \<Rightarrow> Inl (TypeErrorAt (date e)))"

text \<open>
  \<open>addToReport\<close> is the whole body: the person's dictionary of days is created when
  \<open>personMap[entry.person_name]\<close> is falsy. When the person's name is that of an
  inherited member, no dictionary is created and the member is used as one: the day's
  summary is read from and written to the member, and \<open>personMap\<close> keeps its own
  properties as they were. The model follows this when the member is a function and the
  date parses as a date, which no property of a built-in function does; under
  \<open>__proto__\<close> the member is \<open>Object.prototype\<close> itself and the summary written there
  would be inherited by every object.
\<close>

definition addToReport ::
  "TimeEntry \<Rightarrow> DailySummary jsobject jsobject \<Rightarrow> fault + DailySummary jsobject jsobject" where
  "addToReport e personMap =
     (case getProperty (map_of personMap) (person_name e) of
        Absent \<Rightarrow>
          (case addToDays e [] of
             Inl f \<Rightarrow> Inl f
           | Inr days \<Rightarrow> Inr (objSet (person_name e) days personMap))
      | Own days0 \<Rightarrow>
          (case addToDays e days0 of
             Inl f \<Rightarrow> Inl f
           | Inr days \<Rightarrow> Inr (objSet (person_name e) days personMap))
      | Inherited \<Rightarrow>
          (if person_name e \<noteq> ''__proto__'' \<and> dateGetTime (date e) \<noteq> None
           then Inr personMap
           else Inl (InheritedMember (person_name e))))"

text \<open>The loop: it ends at the first entry whose body throws.\<close>

fun forEachEntry ::
  "TimeEntry list \<Rightarrow> DailySummary jsobject jsobject \<Rightarrow> fault + DailySummary jsobject jsobject" where
  "forEachEntry [] personMap = Inr personMap"
| "forEachEntry (e # es) personMap =
     (case addToReport e personMap of
        Inl f \<Rightarrow> Inl f
      | Inr personMap1 \<Rightarrow> forEachEntry es personMap1)"

text \<open>The comparator of the daily summaries; the sort reads a NaN result as 0.\<close>

definition compareDates :: "DailySummary \<Rightarrow> DailySummary \<Rightarrow> int" where
  "compareDates a b =
     (case (dateGetTime (ds_date a), dateGetTime (ds_date b)) of
        (Some x, Some y) \<Rightarrow> x - y
      | _ \<Rightarrow> 0)"

definition personReport :: "string \<times> DailySummary jsobject \<Rightarrow> PersonReport" where
  "personReport p =
     (let summaries = jsSort compareDates (objectValues (snd p))
      in \<lparr>pr_person_name = fst p,
          dailySummaries = summaries,
          totalMins = foldl (\<lambda>acc curr. acc + ds_duration_mins curr) 0 summaries,
          allIds = concat (map entryIds summaries)\<rparr>)"

text \<open>
  \<open>reportData\<close>: the filter (\<open>entries.filter\<close>), the loop, one report per person
  and the final sort. \<open>localeCompare\<close> is the platform's string collation
  (\<open>a.localeCompare(b)\<close>), a parameter of the model.
\<close>

definition filteredEntries :: "string \<Rightarrow> string \<Rightarrow> string \<Rightarrow> TimeEntry list \<Rightarrow> TimeEntry list" where
  "filteredEntries filterPerson filterDateStart filterDateEnd entryList =
     filter (matchesFilter filterPerson filterDateStart filterDateEnd) entryList"

definition reportData ::
  "(string \<Rightarrow> string \<Rightarrow> int) \<Rightarrow> TimeEntry list \<Rightarrow> string \<Rightarrow> string \<Rightarrow> string
   \<Rightarrow> fault + PersonReport list" where
  "reportData localeCompare entryList filterPerson filterDateStart filterDateEnd =
     (let filtered = filteredEntries filterPerson filterDateStart filterDateEnd entryList
      in case forEachEntry filtered [] of
           Inl f \<Rightarrow> Inl f
         | Inr personMap \<Rightarrow>
             (let results = map personReport (objectEntries personMap)
              in Inr (jsSort (\<lambda>a b. localeCompare (pr_person_name a) (pr_person_name b)) results)))"

subsection \<open>The grouping as the specification words it\<close>

text \<open>The distinct elements of a list in the order in which they are first seen.\<close>

fun firstSeen :: "'a list \<Rightarrow> 'a list" where
  "firstSeen [] = []"
| "firstSeen (x # xs) = x # filter (\<lambda>y. y \<noteq> x) (firstSeen xs)"

text \<open>
  The entries of one (person, date) bucket, the bucket's summary (sum of the durations,
  distinct jobs in first-seen order, contributing ids), the dates of a person and the
  two-level grouping.
\<close>

definition bucket :: "TimeEntry list \<Rightarrow> string \<Rightarrow> string \<Rightarrow> TimeEntry list" where
  "bucket es p d = filter (\<lambda>e. person_name e = p \<and> date e = d) es"

definition summaryOf :: "TimeEntry list \<Rightarrow> string \<Rightarrow> string \<Rightarrow> DailySummary" where
  "summaryOf es p d =
     \<lparr>ds_date = d,
      ds_duration_mins = sum_list (map duration_mins (bucket es p d)),
      job_names = firstSeen (map job_name (bucket es p d)),
      entryIds = map id_entry (bucket es p d)\<rparr>"

definition datesOf :: "TimeEntry list \<Rightarrow> string \<Rightarrow> string list" where
  "datesOf es p = firstSeen (map date (filter (\<lambda>e. person_name e = p) es))"

definition daysOf :: "TimeEntry list \<Rightarrow> string \<Rightarrow> DailySummary jsobject" where
  "daysOf es p = map (\<lambda>d. (d, summaryOf es p d)) (datesOf es p)"

definition grouped :: "TimeEntry list \<Rightarrow> DailySummary jsobject jsobject" where
  "grouped es = map (\<lambda>p. (p, daysOf es p)) (firstSeen (map person_name es))"

text \<open>One date is not after another; dates that do not parse are not comparable.\<close>

definition dateNotAfter :: "DailySummary \<Rightarrow> DailySummary \<Rightarrow> bool" where
  "dateNotAfter a b = timeLe (dateGetTime (ds_date a)) (dateGetTime (ds_date b))"

text \<open>A sample comparator that is consistent: the order of the code units.\<close>

definition codeUnitCompare :: "string \<Rightarrow> string \<Rightarrow> int" where
  "codeUnitCompare a b = (if a < b then - 1 else if a = b then 0 else 1)"

definition exampleEntryA2 :: TimeEntry where
  "exampleEntryA2 =
     \<lparr>id_entry = ''e4'', person_name = ''Alice'', job_name = ''Site Survey'',
      date = ''2024-01-01'', clock_in = ''13:00'', clock_out = ''13:30'',
      lunch_30_min = False, notes_entry = '''', created_at = 1704115800000,
      duration_mins = 30\<rparr>"

definition exampleEntryC :: TimeEntry where
  "exampleEntryC =
     \<lparr>id_entry = ''e6'', person_name = ''constructor'', job_name = ''Maintenance'',
      date = ''2024-01-01'', clock_in = ''09:00'', clock_out = ''11:00'',
      lunch_30_min = False, notes_entry = '''', created_at = 1704106800000,
      duration_mins = 120\<rparr>"

text \<open>An entry is safe for the loop when neither key names an inherited member.\<close>

definition ownKeys :: "TimeEntry \<Rightarrow> bool" where
  "ownKeys e = (person_name e \<notin> set objectPrototypeMembers \<and> date e \<notin> set objectPrototypeMembers)"

section \<open>Time utilities\<close>

text \<open>
  Claim C1. When both clock strings parse and the clock-out is strictly after the
  clock-in, \<open>getDurationMinutes\<close> is the difference in minutes, less 30 when the lunch
  flag is set, floored at 0, and so it is never negative. When either string does not
  parse the result is 0; the function has a value on every input.
\<close>

theorem getDurationMinutes_spec:
  "(getTime2000 clockIn = Some s \<and> getTime2000 clockOut = Some f \<and> s < f \<longrightarrow>
      getDurationMinutes clockIn clockOut lunch
        = max 0 (real_of_int (f - s) / 60000 - (if lunch then 30 else 0))
      \<and> 0 \<le> getDurationMinutes clockIn clockOut lunch)
   \<and> (getTime2000 clockIn = None \<or> getTime2000 clockOut = None \<longrightarrow>
        getDurationMinutes clockIn clockOut lunch = 0)"
  by (auto simp: getDurationMinutes_def Let_def split: option.splits)

theorem getDurationMinutes_spec_witness:
  "getDurationMinutes ''08:00'' ''17:00'' True = 510
   \<and> 0 \<le> getDurationMinutes ''08:00'' ''17:00'' True
   \<and> getDurationMinutes ''8am'' ''17:00'' False = 0"
  using getDurationMinutes_spec [of "''08:00''" 28800000 "''17:00''" 61200000 True]
        getDurationMinutes_spec [of "''8am''" 0 "''17:00''" 0 False]
  by (simp add: getTime2000_def timeOfDayMs_def digitVal_def)

lemma padStart_twoDigits: "n < 100 \<Longrightarrow> padStart 2 (CHR ''0'') (toStringNat n) = twoDigits n"
proof (cases "n < 10")
  case True
  then show ?thesis
    by (simp add: padStart_def twoDigits_def toStringNat.simps [of n] digitChar_def)
next
  case False
  assume "n < 100"
  with False have "n div 10 < 10" by simp
  with False show ?thesis
    by (simp add: padStart_def twoDigits_def toStringNat.simps [of n] toStringNat.simps [of "n div 10"])
qed

lemma floor_abs_truncTowardZero: "nat \<lfloor>\<bar>m\<bar>\<rfloor> = nat \<bar>truncTowardZero m\<bar>"
proof (cases "0 \<le> m")
  case True
  then show ?thesis by (simp add: truncTowardZero_def)
next
  case False
  then have "\<lceil>m\<rceil> \<le> 0" by (simp add: ceiling_le_zero)
  moreover have "\<lfloor>\<bar>m\<bar>\<rfloor> = - \<lceil>m\<rceil>" using False by (simp add: ceiling_def)
  ultimately show ?thesis using False by (simp add: truncTowardZero_def)
qed

lemma formatMinutesToHMM_refines:
  "formatMinutesToHMM m = minutesToHoursString_spec m"
  by (simp add: formatMinutesToHMM_def minutesToHoursString_spec_def formatHMM_def Let_def
      floor_abs_truncTowardZero padStart_twoDigits)

text \<open>
  Claim C9. \<open>formatMinutesToHMM\<close> truncates the minutes toward zero and writes them as
  \<open>H:MM\<close> with a two-digit minutes field; for a negative input the output is a minus
  sign followed by the formatting of the absolute value. 90 gives 1:30, -90 gives -1:30
  and 5 gives 0:05.
\<close>

theorem formatMinutesToHMM_spec:
  "formatMinutesToHMM m = minutesToHoursString_spec m
   \<and> (m < 0 \<longrightarrow> formatMinutesToHMM m = CHR ''-'' # formatMinutesToHMM \<bar>m\<bar>)
   \<and> formatMinutesToHMM 90 = ''1:30''
   \<and> formatMinutesToHMM (- 90) = ''-1:30''
   \<and> formatMinutesToHMM 5 = ''0:05''"
proof -
  have neg: "formatMinutesToHMM m = CHR ''-'' # formatMinutesToHMM \<bar>m\<bar>" if "m < 0"
    using that by (simp add: formatMinutesToHMM_def Let_def)
  have ex: "formatMinutesToHMM 90 = ''1:30''" "formatMinutesToHMM (- 90) = ''-1:30''"
    "formatMinutesToHMM 5 = ''0:05''"
    by (simp_all add: formatMinutesToHMM_def toStringNat.simps digitChar_def padStart_def)
  show ?thesis using neg ex formatMinutesToHMM_refines by blast
qed

theorem formatMinutesToHMM_spec_witness:
  "formatMinutesToHMM (- 125.75) = ''-2:05'' \<and> formatMinutesToHMM 125.75 = ''2:05''"
  using formatMinutesToHMM_spec [of "- 125.75"] formatMinutesToHMM_spec [of "125.75"]
  by (simp add: minutesToHoursString_spec_def truncTowardZero_def formatHMM_def twoDigits_def
      toStringNat.simps digitChar_def)

section \<open>Entry Validator\<close>

text \<open>
  Claim C6. \<open>validateEntry\<close> returns no error or exactly one message, the one of the
  first failing rule in the fixed order: worker name missing, date missing, clock-in
  missing, clock-out missing, clock-in unparseable, clock-out unparseable, clock-out not
  strictly after clock-in. An entry whose clock-out equals its clock-in is rejected, and
  so is one whose clock-out is earlier than its clock-in.
\<close>

theorem validateEntry_precedence:
  "validateEntry e = firstFailure (validationRules e)
   \<and> (p_clock_in e = p_clock_out e \<longrightarrow> validateEntry e \<noteq> None)
   \<and> (getTime2000 (templateStr (p_clock_in e)) = Some st
        \<and> getTime2000 (templateStr (p_clock_out e)) = Some fi \<and> fi \<le> st
        \<longrightarrow> validateEntry e \<noteq> None)
   \<and> (\<not> falsy (p_person_name e) \<and> \<not> falsy (p_date e) \<and> \<not> falsy (p_clock_in e)
        \<and> \<not> falsy (p_clock_out e)
        \<and> getTime2000 (templateStr (p_clock_in e)) = Some st
        \<and> getTime2000 (templateStr (p_clock_out e)) = Some fi \<and> fi \<le> st
        \<longrightarrow> validateEntry e = Some ''Clock-out must be after clock-in'')"
  by (auto simp: validateEntry_def validationRules_def strictlyAfter_def Let_def
      split: option.splits)

theorem validateEntry_precedence_witness:
  "validateEntry \<lparr>p_id = None, p_person_name = Some ''Ann'', p_job_name = None,
      p_date = Some ''2026-02-01'', p_clock_in = Some ''09:00'', p_clock_out = Some ''09:00'',
      p_lunch_30_min = None, p_notes = None, p_created_at = None, p_duration_mins = None\<rparr>
     = Some ''Clock-out must be after clock-in''
   \<and> validateEntry \<lparr>p_id = None, p_person_name = Some ''Ann'', p_job_name = None,
      p_date = Some ''2026-02-01'', p_clock_in = Some ''09:00'', p_clock_out = Some ''08:59'',
      p_lunch_30_min = None, p_notes = None, p_created_at = None, p_duration_mins = None\<rparr>
     = Some ''Clock-out must be after clock-in''
   \<and> validateEntry \<lparr>p_id = None, p_person_name = Some ''Ann'', p_job_name = None,
      p_date = None, p_clock_in = None, p_clock_out = Some ''late'',
      p_lunch_30_min = None, p_notes = None, p_created_at = None, p_duration_mins = None\<rparr>
     = Some ''Date is required''"
  using validateEntry_precedence [of "\<lparr>p_id = None, p_person_name = Some ''Ann'', p_job_name = None,
      p_date = Some ''2026-02-01'', p_clock_in = Some ''09:00'', p_clock_out = Some ''09:00'',
      p_lunch_30_min = None, p_notes = None, p_created_at = None, p_duration_mins = None\<rparr>" 32400000 32400000]
    validateEntry_precedence [of "\<lparr>p_id = None, p_person_name = Some ''Ann'', p_job_name = None,
      p_date = Some ''2026-02-01'', p_clock_in = Some ''09:00'', p_clock_out = Some ''08:59'',
      p_lunch_30_min = None, p_notes = None, p_created_at = None, p_duration_mins = None\<rparr>" 32400000 32340000]
    validateEntry_precedence [of "\<lparr>p_id = None, p_person_name = Some ''Ann'', p_job_name = None,
      p_date = None, p_clock_in = None, p_clock_out = Some ''late'',
      p_lunch_30_min = None, p_notes = None, p_created_at = None, p_duration_mins = None\<rparr>" 0 0]
  by (simp add: validationRules_def strictlyAfter_def falsy_def templateStr_def getTime2000_def timeOfDayMs_def
      digitVal_def)

section \<open>Bulk line parser\<close>

lemma splitOn_nonempty: "splitOn c s \<noteq> []"
  by (induction s) (auto split: list.splits)

lemma length_splitOn: "length (splitOn c s) = Suc (count_list s c)"
  by (induction s) (auto simp: splitOn_nonempty split: list.splits)

lemma startsWith_iff: "startsWith a s \<longleftrightarrow> (\<exists>v. s = a @ v)"
  by (induction a s rule: startsWith.induct) auto

lemma infix_Cons_iff:
  "(\<exists>u v. c # cs = u @ a @ v) \<longleftrightarrow> (\<exists>v. c # cs = a @ v) \<or> (\<exists>u v. cs = u @ a @ v)"
proof
  assume "\<exists>u v. c # cs = u @ a @ v"
  then obtain u v where uv: "c # cs = u @ a @ v" by blast
  show "(\<exists>v. c # cs = a @ v) \<or> (\<exists>u v. cs = u @ a @ v)"
  proof (cases u)
    case Nil
    with uv show ?thesis by auto
  next
    case (Cons x u')
    with uv have "cs = u' @ a @ v" by simp
    then show ?thesis by blast
  qed
next
  assume "(\<exists>v. c # cs = a @ v) \<or> (\<exists>u v. cs = u @ a @ v)"
  then show "\<exists>u v. c # cs = u @ a @ v"
  proof
    assume "\<exists>v. c # cs = a @ v"
    then obtain v where "c # cs = [] @ a @ v" by auto
    then show ?thesis by blast
  next
    assume "\<exists>u v. cs = u @ a @ v"
    then obtain u v where "c # cs = (c # u) @ a @ v" by auto
    then show ?thesis by blast
  qed
qed

lemma regexTest_iff: "regexTest alts s \<longleftrightarrow> (\<exists>a\<in>set alts. \<exists>u v. s = u @ a @ v)"
proof (induction s)
  case Nil
  show ?case by (auto simp: list_ex_iff startsWith_iff)
next
  case (Cons c cs)
  have "regexTest alts (c # cs) \<longleftrightarrow>
        (\<exists>a\<in>set alts. (\<exists>v. c # cs = a @ v) \<or> (\<exists>u v. cs = u @ a @ v))"
    using Cons.IH by (auto simp: list_ex_iff startsWith_iff)
  then show ?case by (simp only: infix_Cons_iff)
qed

lemma validateEntry_nonempty_message: "validateEntry e \<noteq> Some []"
  by (auto simp: validateEntry_def Let_def split: option.splits)

lemma parseLine_error_falsy:
  "falsy (error (parseLine uuid now line)) \<longleftrightarrow> error (parseLine uuid now line) = None"
  by (auto simp: parseLine_def Let_def falsy_def validateEntry_nonempty_message)

lemma handleParse_error_falsy:
  "r \<in> set (handleParse uuids nows inputText) \<Longrightarrow> falsy (error r) \<longleftrightarrow> error r = None"
proof -
  assume "r \<in> set (handleParse uuids nows inputText)"
  then obtain i l where "r = parseLine (uuids i) (nows i) l"
    by (auto simp: handleParse_def Let_def)
  then show ?thesis by (simp add: parseLine_error_falsy)
qed

text \<open>
  Claim C7. A line with fewer than three fields (fewer than two bars) gives a formatting
  error at once and no candidate entry; for an ASCII line the message is the line's first
  30 characters between quotes, followed by dots inside the quotes. The confirm step
  hands over exactly the entries of the results that carry no error; every result, failed
  or not, stays in the result list, one per non-blank input line.
\<close>

theorem bulk_import_errors:
  "(count_list line (CHR ''|'') < 2 \<longrightarrow>
      entry (parseLine uuid now line) = None
      \<and> \<not> falsy (error (parseLine uuid now line))
      \<and> (isAscii line \<longrightarrow>
           parseLine uuid now line =
             \<lparr>entry = None,
              error = Some (''Invalid format: '' @ [CHR 0x22] @ take 30 line @ ''...''
                            @ [CHR 0x22])\<rparr>))
   \<and> confirmImport results =
       (if filter (\<lambda>r. falsy (error r)) results = [] then None
        else Some (map entry (filter (\<lambda>r. falsy (error r)) results)))
   \<and> filter (\<lambda>r. falsy (error r)) (handleParse uuids nows inputText)
       = filter (\<lambda>r. error r = None) (handleParse uuids nows inputText)
   \<and> (isAscii inputText \<longrightarrow>
        map error (handleParse uuids nows inputText)
        = map (\<lambda>(i, l). error (parseLine (uuids i) (nows i) l))
            (enumerate 0 (filter (\<lambda>l. trim l \<noteq> []) (splitOn (CHR 0x0A) inputText))))"
proof -
  have a: "parseLine uuid now line =
        \<lparr>entry = None,
         error = Some (''Invalid format: '' @ [CHR 0x22] @ take 30 line @ ''...''
                       @ [CHR 0x22])\<rparr>"
    if "count_list line (CHR ''|'') < 2"
    using that by (simp add: parseLine_def Let_def length_splitOn)
  have a1: "entry (parseLine uuid now line) = None"
    and a2: "\<not> falsy (error (parseLine uuid now line))"
    if "count_list line (CHR ''|'') < 2"
    using a [OF that] by (simp_all add: falsy_def)
  have b: "confirmImport results =
       (if filter (\<lambda>r. falsy (error r)) results = [] then None
        else Some (map entry (filter (\<lambda>r. falsy (error r)) results)))"
    by (simp add: confirmImport_def Let_def)
  have c: "filter (\<lambda>r. falsy (error r)) (handleParse uuids nows inputText)
       = filter (\<lambda>r. error r = None) (handleParse uuids nows inputText)"
    by (rule filter_cong) (auto simp: handleParse_error_falsy)
  have d: "map error (handleParse uuids nows inputText)
       = map (\<lambda>(i, l). error (parseLine (uuids i) (nows i) l))
           (enumerate 0 (filter (\<lambda>l. trim l \<noteq> []) (splitOn (CHR 0x0A) inputText)))"
    by (simp add: handleParse_def Let_def split_def comp_def)
  show ?thesis using a a1 a2 b c d by blast
qed

theorem bulk_import_errors_witness:
  "parseLine ''id-1'' 0 ''BadLine'' =
        \<lparr>entry = None,
         error = Some (''Invalid format: '' @ [CHR 0x22] @ ''BadLine...'' @ [CHR 0x22])\<rparr>
   \<and> confirmImport [parseLine ''id-1'' 0 ''BadLine''] = None
   \<and> map error (handleParse exampleUuids exampleClock ''BadLine'')
       = [Some (''Invalid format: '' @ [CHR 0x22] @ ''BadLine...'' @ [CHR 0x22])]"
proof -
  have few: "count_list ''BadLine'' (CHR ''|'') < 2" by simp
  have ascii: "isAscii ''BadLine''" by (simp add: isAscii_def)
  note t = bulk_import_errors [of "''BadLine''" "''id-1''" 0 "[parseLine ''id-1'' 0 ''BadLine'']"
      exampleUuids exampleClock "''BadLine''"]
  from t few ascii have p: "parseLine ''id-1'' 0 ''BadLine'' =
        \<lparr>entry = None,
         error = Some (''Invalid format: '' @ [CHR 0x22] @ ''BadLine...'' @ [CHR 0x22])\<rparr>"
    by simp
  from t have "confirmImport [parseLine ''id-1'' 0 ''BadLine''] =
       (if filter (\<lambda>r. falsy (error r)) [parseLine ''id-1'' 0 ''BadLine''] = [] then None
        else Some (map entry (filter (\<lambda>r. falsy (error r)) [parseLine ''id-1'' 0 ''BadLine''])))"
    by (elim conjE)
  then have c: "confirmImport [parseLine ''id-1'' 0 ''BadLine''] = None"
    by (simp add: p falsy_def)
  from t ascii have "map error (handleParse exampleUuids exampleClock ''BadLine'')
        = map (\<lambda>(i, l). error (parseLine (exampleUuids i) (exampleClock i) l))
            (enumerate 0 (filter (\<lambda>l. trim l \<noteq> []) (splitOn (CHR 0x0A) ''BadLine'')))"
    by blast
  then have d: "map error (handleParse exampleUuids exampleClock ''BadLine'')
       = [Some (''Invalid format: '' @ [CHR 0x22] @ ''BadLine...'' @ [CHR 0x22])]"
    by (simp add: trim_def isSpace_def enumerate_eq_zip parseLine_def Let_def)
  from p c d show ?thesis by (intro conjI)
qed

text \<open>
  Claim C5, as the specification states it, gives 480 minutes for the sample line. The
  parser returns 510: from 08:00 to 17:00 are 540 minutes, less 30 for lunch.
\<close>

theorem bulk_parse_example_counterexample:
  "map (map_option duration_mins \<circ> entry)
     (handleParse exampleUuids exampleClock ''John | 2026-02-01 | 08:00-17:00 | lunch'')
   \<noteq> [Some 480]"
  by (simp add: handleParse_def parseLine_def trim_def isSpace_def enumerate_eq_zip
      lunchPattern_def toLowerCase_def toLowerChar_def nthOpt_def orDefault_def
      getDurationMinutes_def getTime2000_def timeOfDayMs_def digitVal_def Let_def)

text \<open>
  Claim C5, amended. The sample line gives exactly one candidate, which passes
  validation, with the lunch flag set and a duration of 540 - 30 = 510 minutes. For every
  line that yields a candidate, the lunch flag is set exactly when the lower-cased line
  contains one of lunch, break, 30, 30min, 0:30.
\<close>

theorem bulk_parse_example:
  "handleParse uuids nows ''John | 2026-02-01 | 08:00-17:00 | lunch'' =
     [\<lparr>entry = Some \<lparr>id_entry = uuids 0, person_name = ''John'', job_name = ''Bulk Import'',
         date = ''2026-02-01'', clock_in = ''08:00'', clock_out = ''17:00'',
         lunch_30_min = True,
         notes_entry = ''Bulk imported line: John | 2026-02-01 | 08:00-17:00 | lunch'',
         created_at = nows 0, duration_mins = 510\<rparr>,
       error = None\<rparr>]
   \<and> (entry (parseLine uuid now line) = Some e \<longrightarrow>
        (lunch_30_min e \<longleftrightarrow>
          (\<exists>k\<in>set [''lunch'', ''break'', ''30'', ''30min'', ''0:30''].
             \<exists>u v. toLowerCase line = u @ k @ v)))"
proof -
  have a: "handleParse uuids nows ''John | 2026-02-01 | 08:00-17:00 | lunch'' =
     [\<lparr>entry = Some \<lparr>id_entry = uuids 0, person_name = ''John'', job_name = ''Bulk Import'',
         date = ''2026-02-01'', clock_in = ''08:00'', clock_out = ''17:00'',
         lunch_30_min = True,
         notes_entry = ''Bulk imported line: John | 2026-02-01 | 08:00-17:00 | lunch'',
         created_at = nows 0, duration_mins = 510\<rparr>,
       error = None\<rparr>]"
    by (simp add: handleParse_def parseLine_def trim_def isSpace_def enumerate_eq_zip
      lunchPattern_def toLowerCase_def toLowerChar_def nthOpt_def orDefault_def
      getDurationMinutes_def getTime2000_def timeOfDayMs_def digitVal_def validateEntry_def partialOf_def
      falsy_def templateStr_def)
  have b: "lunch_30_min e \<longleftrightarrow>
          (\<exists>k\<in>set [''lunch'', ''break'', ''30'', ''30min'', ''0:30''].
             \<exists>u v. toLowerCase line = u @ k @ v)"
    if "entry (parseLine uuid now line) = Some e"
  proof -
    from that have "lunch_30_min e = regexTest lunchPattern (toLowerCase line)"
      by (auto simp: parseLine_def Let_def split: if_splits)
    then show ?thesis by (simp only: regexTest_iff lunchPattern_def)
  qed
  show ?thesis using a b by blast
qed

theorem bulk_parse_example_witness:
  "handleParse exampleUuids exampleClock ''John | 2026-02-01 | 08:00-17:00 | lunch'' =
     [\<lparr>entry = Some \<lparr>id_entry = exampleUuids 0, person_name = ''John'',
         job_name = ''Bulk Import'',
         date = ''2026-02-01'', clock_in = ''08:00'', clock_out = ''17:00'',
         lunch_30_min = True,
         notes_entry = ''Bulk imported line: John | 2026-02-01 | 08:00-17:00 | lunch'',
         created_at = exampleClock 0, duration_mins = 510\<rparr>,
       error = None\<rparr>]
   \<and> (\<exists>k\<in>set [''lunch'', ''break'', ''30'', ''30min'', ''0:30''].
         \<exists>u v. toLowerCase ''x | 2026-02-01 | 08:00-17:00 | Break'' = u @ k @ v)"
proof -
  let ?e = "\<lparr>id_entry = ''id-1'', person_name = ''x'', job_name = ''Bulk Import'',
         date = ''2026-02-01'', clock_in = ''08:00'', clock_out = ''17:00'',
         lunch_30_min = True,
         notes_entry = ''Bulk imported line: x | 2026-02-01 | 08:00-17:00 | Break'',
         created_at = 0, duration_mins = 510\<rparr>"
  have p: "entry (parseLine ''id-1'' 0 ''x | 2026-02-01 | 08:00-17:00 | Break'') = Some ?e"
    by (simp add: parseLine_def trim_def isSpace_def lunchPattern_def toLowerCase_def
        toLowerChar_def nthOpt_def orDefault_def getDurationMinutes_def getTime2000_def timeOfDayMs_def
        digitVal_def Let_def)
  note t = bulk_parse_example [of exampleUuids exampleClock "''id-1''" 0
        "''x | 2026-02-01 | 08:00-17:00 | Break''" ?e]
  from t have a: "handleParse exampleUuids exampleClock ''John | 2026-02-01 | 08:00-17:00 | lunch'' =
     [\<lparr>entry = Some \<lparr>id_entry = exampleUuids 0, person_name = ''John'',
         job_name = ''Bulk Import'',
         date = ''2026-02-01'', clock_in = ''08:00'', clock_out = ''17:00'',
         lunch_30_min = True,
         notes_entry = ''Bulk imported line: John | 2026-02-01 | 08:00-17:00 | lunch'',
         created_at = exampleClock 0, duration_mins = 510\<rparr>,
       error = None\<rparr>]"
    by (rule conjunct1)
  from t p have "lunch_30_min ?e \<longleftrightarrow>
      (\<exists>k\<in>set [''lunch'', ''break'', ''30'', ''30min'', ''0:30''].
         \<exists>u v. toLowerCase ''x | 2026-02-01 | 08:00-17:00 | Break'' = u @ k @ v)"
    by blast
  then have b: "\<exists>k\<in>set [''lunch'', ''break'', ''30'', ''30min'', ''0:30''].
         \<exists>u v. toLowerCase ''x | 2026-02-01 | 08:00-17:00 | Break'' = u @ k @ v"
    by simp
  from a b show ?thesis by (rule conjI)
qed

section \<open>Aggregation: reportData\<close>

subsection \<open>The loop over the filtered entries computes the grouping\<close>

lemma set_firstSeen [simp]: "set (firstSeen xs) = set xs"
  by (induction xs) auto

lemma distinct_firstSeen [simp]: "distinct (firstSeen xs)"
  by (induction xs) auto

lemma firstSeen_snoc:
  "firstSeen (xs @ [x]) = (if x \<in> set xs then firstSeen xs else firstSeen xs @ [x])"
  by (induction xs) auto

lemma map_of_keyed:
  "map_of (map (\<lambda>k. (k, f k)) ks) k = (if k \<in> set ks then Some (f k) else None)"
  by (induction ks) auto

lemma objSet_keyed_new:
  "k \<notin> set ks \<Longrightarrow> objSet k v (map (\<lambda>x. (x, f x)) ks) = map (\<lambda>x. (x, f x)) ks @ [(k, v)]"
  by (induction ks) auto

lemma objSet_keyed_old:
  "k \<in> set ks \<Longrightarrow> distinct ks \<Longrightarrow>
   objSet k v (map (\<lambda>x. (x, f x)) ks) = map (\<lambda>x. (x, if x = k then v else f x)) ks"
  by (induction ks) auto

lemma bucket_snoc:
  "bucket (es @ [e]) p d =
     (if person_name e = p \<and> date e = d then bucket es p d @ [e] else bucket es p d)"
  by (simp add: bucket_def)

lemma summaryOf_snoc_other:
  "\<not> (person_name e = p \<and> date e = d) \<Longrightarrow> summaryOf (es @ [e]) p d = summaryOf es p d"
  by (simp add: summaryOf_def bucket_snoc)

lemma summaryOf_snoc_same:
  "takeIn e (summaryOf es (person_name e) (date e))
   = summaryOf (es @ [e]) (person_name e) (date e)"
  by (simp add: takeIn_def summaryOf_def bucket_snoc firstSeen_snoc)

lemma datesOf_snoc:
  "datesOf (es @ [e]) p =
     (if person_name e = p
      then (if date e \<in> set (datesOf es p) then datesOf es p else datesOf es p @ [date e])
      else datesOf es p)"
  by (simp add: datesOf_def firstSeen_snoc)

lemma bucket_empty: "d \<notin> set (datesOf es p) \<Longrightarrow> bucket es p d = []"
  by (auto simp: datesOf_def bucket_def filter_empty_conv)

lemma summaryOf_fresh:
  "d \<notin> set (datesOf es p) \<Longrightarrow>
   summaryOf es p d = \<lparr>ds_date = d, ds_duration_mins = 0, job_names = [], entryIds = []\<rparr>"
  by (simp add: summaryOf_def bucket_empty)

lemma map_of_daysOf:
  "map_of (daysOf es p) d = (if d \<in> set (datesOf es p) then Some (summaryOf es p d) else None)"
  by (simp add: daysOf_def map_of_keyed)

lemma map_of_grouped:
  "map_of (grouped es) p = (if p \<in> person_name ` set es then Some (daysOf es p) else None)"
  by (simp add: grouped_def map_of_keyed)

lemma daysOf_absent: "p \<notin> person_name ` set es \<Longrightarrow> daysOf es p = []"
proof -
  assume "p \<notin> person_name ` set es"
  then have "filter (\<lambda>e. person_name e = p) es = []"
    by (auto simp: filter_empty_conv)
  then show ?thesis by (simp add: daysOf_def datesOf_def)
qed

lemma daysOf_snoc_other: "person_name e \<noteq> p \<Longrightarrow> daysOf (es @ [e]) p = daysOf es p"
  by (simp add: daysOf_def datesOf_snoc summaryOf_snoc_other)

lemma daysOf_snoc_same:
  "objSet (date e) (summaryOf (es @ [e]) (person_name e) (date e)) (daysOf es (person_name e))
   = daysOf (es @ [e]) (person_name e)"
proof (cases "date e \<in> set (datesOf es (person_name e))")
  case True
  then have "objSet (date e) (summaryOf (es @ [e]) (person_name e) (date e))
               (daysOf es (person_name e))
      = map (\<lambda>x. (x, if x = date e then summaryOf (es @ [e]) (person_name e) (date e)
                       else summaryOf es (person_name e) x)) (datesOf es (person_name e))"
    unfolding daysOf_def by (rule objSet_keyed_old) (simp add: datesOf_def)
  also have "\<dots> = map (\<lambda>x. (x, summaryOf (es @ [e]) (person_name e) x))
                      (datesOf es (person_name e))"
    by (rule map_cong) (simp_all add: summaryOf_snoc_other)
  finally show ?thesis using True by (simp add: daysOf_def datesOf_snoc)
next
  case False
  then have new: "daysOf (es @ [e]) (person_name e)
      = daysOf es (person_name e) @ [(date e, summaryOf (es @ [e]) (person_name e) (date e))]"
    by (auto simp: daysOf_def datesOf_snoc intro!: summaryOf_snoc_other)
  from False have "objSet (date e) (summaryOf (es @ [e]) (person_name e) (date e))
               (daysOf es (person_name e))
      = daysOf es (person_name e) @ [(date e, summaryOf (es @ [e]) (person_name e) (date e))]"
    unfolding daysOf_def by (rule objSet_keyed_new)
  with new show ?thesis by simp
qed

lemma grouped_snoc:
  "objSet (person_name e) (daysOf (es @ [e]) (person_name e)) (grouped es) = grouped (es @ [e])"
proof (cases "person_name e \<in> person_name ` set es")
  case True
  then have "objSet (person_name e) (daysOf (es @ [e]) (person_name e)) (grouped es)
      = map (\<lambda>x. (x, if x = person_name e then daysOf (es @ [e]) (person_name e)
                       else daysOf es x)) (firstSeen (map person_name es))"
    unfolding grouped_def by (intro objSet_keyed_old) simp_all
  also have "\<dots> = map (\<lambda>x. (x, daysOf (es @ [e]) x)) (firstSeen (map person_name es))"
    by (rule map_cong) (auto simp: daysOf_snoc_other)
  finally show ?thesis using True by (simp add: grouped_def firstSeen_snoc)
next
  case False
  then have new: "grouped (es @ [e])
      = grouped es @ [(person_name e, daysOf (es @ [e]) (person_name e))]"
    by (auto simp: grouped_def firstSeen_snoc intro!: daysOf_snoc_other)
  from False have "objSet (person_name e) (daysOf (es @ [e]) (person_name e)) (grouped es)
      = grouped es @ [(person_name e, daysOf (es @ [e]) (person_name e))]"
    unfolding grouped_def by (intro objSet_keyed_new) simp
  with new show ?thesis by simp
qed

text \<open>
  For an entry whose keys name no inherited member, the body of the loop extends the
  grouping by that entry.
\<close>

lemma addToDays_daysOf:
  "date e \<notin> set objectPrototypeMembers \<Longrightarrow>
   addToDays e (daysOf es (person_name e)) = Inr (daysOf (es @ [e]) (person_name e))"
proof -
  assume "date e \<notin> set objectPrototypeMembers"
  then have "addToDays e (daysOf es (person_name e))
      = Inr (objSet (date e) (takeIn e (summaryOf es (person_name e) (date e)))
               (daysOf es (person_name e)))"
    by (simp add: addToDays_def getProperty_def map_of_daysOf summaryOf_fresh)
  then show ?thesis by (simp only: summaryOf_snoc_same daysOf_snoc_same)
qed

lemma addToReport_grouped:
  assumes "ownKeys e"
  shows "addToReport e (grouped es) = Inr (grouped (es @ [e]))"
proof -
  from assms have p: "person_name e \<notin> set objectPrototypeMembers"
    and d: "date e \<notin> set objectPrototypeMembers"
    by (simp_all add: ownKeys_def)
  have "addToReport e (grouped es)
      = Inr (objSet (person_name e) (daysOf (es @ [e]) (person_name e)) (grouped es))"
  proof (cases "person_name e \<in> person_name ` set es")
    case True
    then have "getProperty (map_of (grouped es)) (person_name e) = Own (daysOf es (person_name e))"
      by (simp add: getProperty_def map_of_grouped)
    then show ?thesis by (simp add: addToReport_def addToDays_daysOf [OF d])
  next
    case False
    with p have "getProperty (map_of (grouped es)) (person_name e) = Absent"
      by (simp add: getProperty_def map_of_grouped)
    moreover from False have "addToDays e [] = Inr (daysOf (es @ [e]) (person_name e))"
      using addToDays_daysOf [OF d, of es] by (simp add: daysOf_absent)
    ultimately show ?thesis by (simp add: addToReport_def)
  qed
  then show ?thesis by (simp only: grouped_snoc)
qed

lemma forEachEntry_grouped:
  "list_all ownKeys es \<Longrightarrow> forEachEntry es (grouped pre) = Inr (grouped (pre @ es))"
proof (induction es arbitrary: pre)
  case Nil
  show ?case by simp
next
  case (Cons e es)
  then have "forEachEntry (e # es) (grouped pre) = forEachEntry es (grouped (pre @ [e]))"
    by (simp add: addToReport_grouped)
  also have "\<dots> = Inr (grouped ((pre @ [e]) @ es))"
    using Cons.prems by (intro Cons.IH) simp
  finally show ?case by simp
qed

text \<open>
  Whatever the entries, no person whose name is that of an inherited member has a
  property in the dictionary of persons: the loop never creates one.
\<close>

lemma set_objSet: "fst ` set (objSet k v obj) = insert k (fst ` set obj)"
  by (induction obj) auto

lemma addToReport_keys:
  assumes "addToReport e pm = Inr pm1"
    and "fst ` set pm \<inter> set objectPrototypeMembers = {}"
  shows "fst ` set pm1 \<inter> set objectPrototypeMembers = {}"
proof (cases "getProperty (map_of pm) (person_name e)")
  case (Own days0)
  then have "map_of pm (person_name e) = Some days0"
    by (simp add: getProperty_def split: option.splits if_splits)
  then have "person_name e \<in> fst ` set pm"
    by (metis domI dom_map_of_conv_image_fst)
  moreover from assms(1) Own obtain days where "pm1 = objSet (person_name e) days pm"
    by (auto simp: addToReport_def split: sum.splits)
  ultimately show ?thesis using assms(2) by (auto simp: set_objSet)
next
  case Inherited
  with assms(1) have "pm1 = pm" by (simp add: addToReport_def split: if_splits)
  with assms(2) show ?thesis by simp
next
  case Absent
  then have "person_name e \<notin> set objectPrototypeMembers"
    by (simp add: getProperty_def split: option.splits if_splits)
  moreover from assms(1) Absent obtain days where "pm1 = objSet (person_name e) days pm"
    by (auto simp: addToReport_def split: sum.splits)
  ultimately show ?thesis using assms(2) by (auto simp: set_objSet)
qed

lemma forEachEntry_keys:
  "forEachEntry es pm = Inr pm1 \<Longrightarrow> fst ` set pm \<inter> set objectPrototypeMembers = {} \<Longrightarrow>
   fst ` set pm1 \<inter> set objectPrototypeMembers = {}"
proof (induction es arbitrary: pm)
  case Nil
  then show ?case by simp
next
  case (Cons e es)
  from Cons.prems(1) obtain pm2 where a: "addToReport e pm = Inr pm2"
    and b: "forEachEntry es pm2 = Inr pm1"
    by (auto split: sum.splits)
  from addToReport_keys [OF a Cons.prems(2)] b show ?case by (rule Cons.IH [rotated])
qed

subsection \<open>The sort and the property order\<close>

lemma mset_insertSorted: "mset (insertSorted cmp x ys) = add_mset x (mset ys)"
  by (induction ys) auto

lemma mset_jsSort: "mset (jsSort cmp xs) = mset xs"
  by (induction xs) (simp_all add: jsSort_def mset_insertSorted)

lemma set_jsSort: "set (jsSort cmp xs) = set xs"
  by (metis mset_jsSort set_mset_mset)

lemma set_insertSorted: "set (insertSorted cmp x ys) = insert x (set ys)"
  by (metis mset_insertSorted set_mset_add_mset_insert set_mset_mset)

lemma sorted_insertSorted:
  assumes total: "\<And>a b. a \<in> A \<Longrightarrow> b \<in> A \<Longrightarrow> cmp a b \<le> 0 \<or> cmp b a \<le> 0"
    and trans: "\<And>a b c. a \<in> A \<Longrightarrow> b \<in> A \<Longrightarrow> c \<in> A \<Longrightarrow> cmp a b \<le> 0 \<Longrightarrow> cmp b c \<le> 0
                  \<Longrightarrow> cmp a c \<le> 0"
  shows "x \<in> A \<Longrightarrow> set ys \<subseteq> A \<Longrightarrow> sorted_wrt (\<lambda>a b. cmp a b \<le> 0) ys
         \<Longrightarrow> sorted_wrt (\<lambda>a b. cmp a b \<le> 0) (insertSorted cmp x ys)"
proof (induction ys)
  case Nil
  then show ?case by simp
next
  case (Cons y ys)
  show ?case
  proof (cases "cmp x y \<le> 0")
    case True
    have "cmp x z \<le> 0" if "z \<in> set ys" for z
    proof -
      from Cons.prems that have "cmp y z \<le> 0" by simp
      with True show ?thesis using trans [of x y z] Cons.prems that by auto
    qed
    with True Cons.prems show ?thesis by simp
  next
    case False
    with total [of x y] Cons.prems have yx: "cmp y x \<le> 0" by auto
    from Cons have "sorted_wrt (\<lambda>a b. cmp a b \<le> 0) (insertSorted cmp x ys)" by simp
    with False yx Cons.prems show ?thesis by (auto simp: set_insertSorted)
  qed
qed

lemma sorted_jsSort:
  assumes total: "\<And>a b. a \<in> A \<Longrightarrow> b \<in> A \<Longrightarrow> cmp a b \<le> 0 \<or> cmp b a \<le> 0"
    and trans: "\<And>a b c. a \<in> A \<Longrightarrow> b \<in> A \<Longrightarrow> c \<in> A \<Longrightarrow> cmp a b \<le> 0 \<Longrightarrow> cmp b c \<le> 0
                  \<Longrightarrow> cmp a c \<le> 0"
  shows "set xs \<subseteq> A \<Longrightarrow> sorted_wrt (\<lambda>a b. cmp a b \<le> 0) (jsSort cmp xs)"
proof (induction xs)
  case Nil
  show ?case by (simp add: jsSort_def)
next
  case (Cons x xs)
  then have "sorted_wrt (\<lambda>a b. cmp a b \<le> 0) (jsSort cmp xs)" by simp
  moreover have "set (jsSort cmp xs) \<subseteq> A" using Cons.prems by (simp add: set_jsSort)
  moreover have "x \<in> A" using Cons.prems by simp
  ultimately have "sorted_wrt (\<lambda>a b. cmp a b \<le> 0) (insertSorted cmp x (jsSort cmp xs))"
    using total trans by (intro sorted_insertSorted [where A = A]) blast+
  then show ?case by (simp add: jsSort_def)
qed

lemma mset_objectEntries: "mset (objectEntries obj) = mset obj"
proof -
  have "mset (objectEntries obj)
      = filter_mset (\<lambda>p. arrayIndexOf (fst p) \<noteq> None) (mset obj)
        + filter_mset (\<lambda>p. \<not> arrayIndexOf (fst p) \<noteq> None) (mset obj)"
    by (simp add: objectEntries_def)
  then show ?thesis by (simp only: multiset_partition [symmetric])
qed

lemma set_objectEntries: "set (objectEntries obj) = set obj"
  by (metis mset_objectEntries set_mset_mset)

lemma foldl_add_ds_duration:
  "foldl (\<lambda>acc curr. acc + ds_duration_mins curr) a xs = a + sum_list (map ds_duration_mins xs)"
  by (induction xs arbitrary: a) simp_all

lemma compareDates_valid:
  "dateGetTime (ds_date a) \<noteq> None \<Longrightarrow> dateGetTime (ds_date b) \<noteq> None \<Longrightarrow>
   compareDates a b \<le> 0 \<longleftrightarrow> dateNotAfter a b"
  by (auto simp: compareDates_def dateNotAfter_def timeLe_def)

lemma sorted_dates:
  assumes valid: "\<And>s. s \<in> set xs \<Longrightarrow> dateGetTime (ds_date s) \<noteq> None"
  shows "sorted_wrt dateNotAfter (jsSort compareDates xs)"
proof -
  let ?A = "{s. dateGetTime (ds_date s) \<noteq> None}"
  have s: "sorted_wrt (\<lambda>a b. compareDates a b \<le> 0) (jsSort compareDates xs)"
  proof (rule sorted_jsSort [where A = ?A])
    show "compareDates a b \<le> 0 \<or> compareDates b a \<le> 0" if "a \<in> ?A" "b \<in> ?A" for a b
      using that by (auto simp: compareDates_def)
    show "compareDates a c \<le> 0"
      if "a \<in> ?A" "b \<in> ?A" "c \<in> ?A" "compareDates a b \<le> 0" "compareDates b c \<le> 0" for a b c
      using that by (auto simp: compareDates_def)
    show "set xs \<subseteq> ?A" using valid by auto
  qed
  have sub: "set (jsSort compareDates xs) \<subseteq> ?A"
    using valid by (auto simp: set_jsSort)
  show ?thesis
  proof (rule sorted_wrt_mono_rel [OF _ s])
    fix a b
    assume "a \<in> set (jsSort compareDates xs)" "b \<in> set (jsSort compareDates xs)"
      and "compareDates a b \<le> 0"
    with sub have "dateGetTime (ds_date a) \<noteq> None" "dateGetTime (ds_date b) \<noteq> None"
      "compareDates a b \<le> 0"
      by blast+
    then show "dateNotAfter a b" using compareDates_valid [of a b] by blast
  qed
qed


subsection \<open>The filter\<close>

lemma set_filteredEntries:
  "set (filteredEntries fp fs fe es)
   = {e \<in> set es. (fp = ''All'' \<or> person_name e = fp)
        \<and> (fs = [] \<or> timeGe (dateGetTime (date e)) (dateGetTime fs))
        \<and> (fe = [] \<or> timeLe (dateGetTime (date e)) (dateGetTime fe))}"
  by (auto simp: filteredEntries_def matchesFilter_def Let_def)

lemma matchesFilter_range:
  assumes "dateGetTime (date e) = Some t" "dateGetTime fs = Some a" "dateGetTime fe = Some b"
  shows "matchesFilter fp fs fe e \<longleftrightarrow> (fp = ''All'' \<or> person_name e = fp) \<and> a \<le> t \<and> t \<le> b"
proof -
  from assms(2,3) have "fs \<noteq> []" "fe \<noteq> []" by (auto simp: dateGetTime_def)
  with assms show ?thesis by (simp add: matchesFilter_def Let_def timeGe_def timeLe_def)
qed

subsection \<open>The shape of the report\<close>

lemma report_members:
  assumes "r \<in> set (jsSort cmp (map personReport (objectEntries (grouped F))))"
  shows "\<exists>p\<in>person_name ` set F. r = personReport (p, daysOf F p)"
proof -
  from assms have "r \<in> personReport ` set (grouped F)"
    by (simp add: set_jsSort set_objectEntries)
  then show ?thesis by (auto simp: grouped_def)
qed

lemma report_names:
  "mset (map pr_person_name (jsSort cmp (map personReport (objectEntries (grouped F)))))
   = mset (firstSeen (map person_name F))"
proof -
  have "mset (map pr_person_name (jsSort cmp (map personReport (objectEntries (grouped F)))))
      = image_mset pr_person_name (mset (map personReport (objectEntries (grouped F))))"
    by (simp add: mset_jsSort)
  also have "\<dots> = image_mset fst (mset (objectEntries (grouped F)))"
    by (simp add: personReport_def Let_def multiset.map_comp comp_def)
  also have "\<dots> = mset (map fst (grouped F))"
    by (simp add: mset_objectEntries)
  also have "map fst (grouped F) = firstSeen (map person_name F)"
    by (simp add: grouped_def comp_def)
  finally show ?thesis .
qed

lemma personReport_summaries:
  "mset (dailySummaries (personReport (p, daysOf F p))) = mset (map (summaryOf F p) (datesOf F p))"
proof -
  have "mset (dailySummaries (personReport (p, daysOf F p)))
      = image_mset snd (mset (objectEntries (daysOf F p)))"
    by (simp add: personReport_def Let_def mset_jsSort objectValues_def)
  also have "\<dots> = mset (map snd (daysOf F p))"
    by (simp add: mset_objectEntries)
  also have "map snd (daysOf F p) = map (summaryOf F p) (datesOf F p)"
    by (simp add: daysOf_def comp_def)
  finally show ?thesis .
qed

lemma summary_dates:
  "mset (map ds_date (dailySummaries (personReport (p, daysOf F p)))) = mset (datesOf F p)"
proof -
  have "mset (map ds_date (dailySummaries (personReport (p, daysOf F p))))
      = image_mset ds_date (mset (map (summaryOf F p) (datesOf F p)))"
    by (simp only: mset_map personReport_summaries)
  also have "\<dots> = mset (map (\<lambda>d. ds_date (summaryOf F p d)) (datesOf F p))"
    by (simp add: multiset.map_comp comp_def)
  also have "\<dots> = mset (datesOf F p)"
    by (simp add: summaryOf_def)
  finally show ?thesis .
qed

lemma set_datesOf: "set (datesOf F p) = date ` {e \<in> set F. person_name e = p}"
  by (auto simp: datesOf_def)

lemma personReport_sorted:
  assumes "\<And>e. e \<in> set F \<Longrightarrow> dateGetTime (date e) \<noteq> None"
  shows "sorted_wrt dateNotAfter (dailySummaries (personReport (p, daysOf F p)))"
proof -
  have "dateGetTime (ds_date s) \<noteq> None" if "s \<in> set (objectValues (daysOf F p))" for s
  proof -
    from that have "s \<in> snd ` set (daysOf F p)"
      by (simp add: objectValues_def set_objectEntries)
    then obtain d where d: "d \<in> set (datesOf F p)" and s: "s = summaryOf F p d"
      by (auto simp: daysOf_def)
    from d obtain e where "e \<in> set F" "date e = d" by (auto simp: set_datesOf)
    with assms s show ?thesis by (auto simp: summaryOf_def)
  qed
  then show ?thesis by (simp add: personReport_def Let_def sorted_dates)
qed

subsection \<open>The report over entries whose keys name no inherited member\<close>

lemma reportData_ownKeys:
  "list_all ownKeys (filteredEntries fp fs fe es) \<Longrightarrow>
   reportData localeCompare es fp fs fe
     = Inr (jsSort (\<lambda>a b. localeCompare (pr_person_name a) (pr_person_name b))
              (map personReport (objectEntries (grouped (filteredEntries fp fs fe es)))))"
  using forEachEntry_grouped [of "filteredEntries fp fs fe es" "[]"]
  by (simp add: reportData_def Let_def grouped_def)

text \<open>
  When no filtered entry has a person name or a date that names a member of
  \<open>Object.prototype\<close>, \<open>reportData\<close> returns a list with exactly one report per
  person of the filtered entries. A person's daily summaries are one per date of that
  person; the summary of a (person, date) bucket holds the sum of the durations, the
  distinct job names in first-seen order and the ids of the bucket's entries in their
  order. The person's total is the sum of the daily totals and \<open>allIds\<close> is the
  concatenation of the daily id lists. With dates that parse, the daily summaries are
  ascending by date. The reports are ascending by person name in the order of the
  platform's \<open>localeCompare\<close>, taken here as any consistent comparator.
\<close>

lemma reportData_grouping:
  assumes ok: "list_all ownKeys (filteredEntries fp fs fe es)"
  shows "\<exists>R. reportData localeCompare es fp fs fe = Inr R
   \<and> distinct (map pr_person_name R)
   \<and> set (map pr_person_name R) = person_name ` set (filteredEntries fp fs fe es)
   \<and> (\<forall>r\<in>set R.
         mset (dailySummaries r)
           = mset (map (summaryOf (filteredEntries fp fs fe es) (pr_person_name r))
                    (datesOf (filteredEntries fp fs fe es) (pr_person_name r)))
         \<and> distinct (map ds_date (dailySummaries r))
         \<and> set (map ds_date (dailySummaries r))
             = date ` {e \<in> set (filteredEntries fp fs fe es). person_name e = pr_person_name r}
         \<and> totalMins r = sum_list (map ds_duration_mins (dailySummaries r))
         \<and> allIds r = concat (map entryIds (dailySummaries r))
         \<and> ((\<forall>e\<in>set (filteredEntries fp fs fe es). dateGetTime (date e) \<noteq> None)
              \<longrightarrow> sorted_wrt dateNotAfter (dailySummaries r)))
   \<and> ((\<forall>a b. localeCompare a b \<le> 0 \<or> localeCompare b a \<le> 0)
        \<and> (\<forall>a b c. localeCompare a b \<le> 0 \<and> localeCompare b c \<le> 0 \<longrightarrow> localeCompare a c \<le> 0)
        \<longrightarrow> sorted_wrt (\<lambda>a b. localeCompare (pr_person_name a) (pr_person_name b) \<le> 0) R)"
proof -
  let ?F = "filteredEntries fp fs fe es"
  let ?c = "\<lambda>a b. localeCompare (pr_person_name a) (pr_person_name b)"
  let ?R = "jsSort ?c (map personReport (objectEntries (grouped ?F)))"
  have 0: "reportData localeCompare es fp fs fe = Inr ?R"
    using ok by (rule reportData_ownKeys)
  have names: "mset (map pr_person_name ?R) = mset (firstSeen (map person_name ?F))"
    by (rule report_names)
  have 1: "distinct (map pr_person_name ?R)"
    using mset_eq_imp_distinct_iff [OF names] by simp
  have 2: "set (map pr_person_name ?R) = person_name ` set ?F"
    using mset_eq_setD [OF names] by simp
  have 3: "mset (dailySummaries r)
           = mset (map (summaryOf ?F (pr_person_name r)) (datesOf ?F (pr_person_name r)))
         \<and> distinct (map ds_date (dailySummaries r))
         \<and> set (map ds_date (dailySummaries r))
             = date ` {e \<in> set ?F. person_name e = pr_person_name r}
         \<and> totalMins r = sum_list (map ds_duration_mins (dailySummaries r))
         \<and> allIds r = concat (map entryIds (dailySummaries r))
         \<and> ((\<forall>e\<in>set ?F. dateGetTime (date e) \<noteq> None)
              \<longrightarrow> sorted_wrt dateNotAfter (dailySummaries r))"
    if "r \<in> set ?R" for r
  proof -
    from report_members [OF that] obtain p where r: "r = personReport (p, daysOf ?F p)"
      by blast
    have p: "pr_person_name r = p" by (simp add: r personReport_def Let_def)
    have a: "mset (dailySummaries r) = mset (map (summaryOf ?F p) (datesOf ?F p))"
      unfolding r by (rule personReport_summaries)
    have dm: "mset (map ds_date (dailySummaries r)) = mset (datesOf ?F p)"
      unfolding r by (rule summary_dates)
    have b: "distinct (map ds_date (dailySummaries r))"
      using mset_eq_imp_distinct_iff [OF dm] by (simp add: datesOf_def)
    have c: "set (map ds_date (dailySummaries r)) = date ` {e \<in> set ?F. person_name e = p}"
      using mset_eq_setD [OF dm] by (simp only: set_datesOf)
    have d: "totalMins r = sum_list (map ds_duration_mins (dailySummaries r))"
      by (simp add: r personReport_def Let_def foldl_add_ds_duration)
    have e: "allIds r = concat (map entryIds (dailySummaries r))"
      by (simp add: r personReport_def Let_def)
    have f: "sorted_wrt dateNotAfter (dailySummaries r)"
      if "\<forall>e\<in>set ?F. dateGetTime (date e) \<noteq> None"
      unfolding r using that by (intro personReport_sorted) blast
    from a b c d e f show ?thesis unfolding p by blast
  qed
  have 4: "sorted_wrt (\<lambda>a b. ?c a b \<le> 0) ?R"
    if total: "\<forall>a b. localeCompare a b \<le> 0 \<or> localeCompare b a \<le> 0"
      and trans: "\<forall>a b c. localeCompare a b \<le> 0 \<and> localeCompare b c \<le> 0 \<longrightarrow> localeCompare a c \<le> 0"
  proof (rule sorted_jsSort [where A = UNIV])
    show "localeCompare (pr_person_name a) (pr_person_name b) \<le> 0
          \<or> localeCompare (pr_person_name b) (pr_person_name a) \<le> 0" for a b :: PersonReport
      using total by blast
    show "localeCompare (pr_person_name a) (pr_person_name c) \<le> 0"
      if "localeCompare (pr_person_name a) (pr_person_name b) \<le> 0"
        "localeCompare (pr_person_name b) (pr_person_name c) \<le> 0" for a b c :: PersonReport
      using trans that by blast
  qed simp
  from 0 1 2 3 4 show ?thesis by blast
qed

subsection \<open>Entries of a person named like an inherited member\<close>

text \<open>
  Whatever the entries and the filter, a report that \<open>reportData\<close> returns has no person
  whose name is that of a member of \<open>Object.prototype\<close>.
\<close>

lemma reportData_no_inherited_names:
  assumes "reportData localeCompare es fp fs fe = Inr R"
  shows "set (map pr_person_name R) \<inter> set objectPrototypeMembers = {}"
proof -
  let ?c = "\<lambda>a b. localeCompare (pr_person_name a) (pr_person_name b)"
  from assms obtain pm where pm: "forEachEntry (filteredEntries fp fs fe es) [] = Inr pm"
    and R: "R = jsSort ?c (map personReport (objectEntries pm))"
    by (auto simp: reportData_def Let_def split: sum.splits)
  have "set (map pr_person_name R) = fst ` set pm"
    by (simp add: R set_jsSort set_objectEntries image_image personReport_def Let_def)
  with forEachEntry_keys [OF pm] show ?thesis by simp
qed

lemmas report_evaluation =
  reportData_def filteredEntries_def matchesFilter_def timeGe_def timeLe_def Let_def
  addToReport_def addToDays_def takeIn_def getProperty_def objectPrototypeMembers_def
  exampleEntryA_def exampleEntryA2_def exampleEntryB_def exampleEntryC_def
  objectEntries_def objectValues_def personReport_def jsSort_def codeUnitCompare_def

lemma dateGetTime_examples:
  "dateGetTime ''2024-01-01'' = Some 1704067200000"
  "dateGetTime ''2024-01-02'' = Some 1704153600000"
  by (simp_all add: dateGetTime_def digitVal_def daysInMonth_def isLeapYear_def
      dayFromYear_def daysBeforeMonth_def)

lemma arrayIndexOf_examples:
  "arrayIndexOf ''Alice'' = None" "arrayIndexOf ''Bob'' = None"
  "arrayIndexOf ''2024-01-01'' = None" "arrayIndexOf ''2024-01-02'' = None"
  by (simp_all add: arrayIndexOf_def digitVal_def)

text \<open>
  The sample of the specification: over Alice's 60 and 30 minutes on 2024-01-01 and Bob's
  45 minutes on 2024-01-02 there are two reports, Alice before Bob, and Alice's bucket sums
  to 90 minutes with the ids of both entries. With the range ending on 2024-01-01 Bob's
  entry is left out.
\<close>

lemma reportData_example:
  "reportData codeUnitCompare [exampleEntryA, exampleEntryA2, exampleEntryB]
     ''All'' ''2024-01-01'' ''2024-01-02'' =
     Inr [\<lparr>pr_person_name = ''Alice'',
       dailySummaries =
         [\<lparr>ds_date = ''2024-01-01'', ds_duration_mins = 90,
           job_names = [''Maintenance'', ''Site Survey''], entryIds = [''e1'', ''e4'']\<rparr>],
       totalMins = 90, allIds = [''e1'', ''e4'']\<rparr>,
      \<lparr>pr_person_name = ''Bob'',
       dailySummaries =
         [\<lparr>ds_date = ''2024-01-02'', ds_duration_mins = 45, job_names = [''Site Survey''],
           entryIds = [''e2'']\<rparr>],
       totalMins = 45, allIds = [''e2'']\<rparr>]"
  "reportData codeUnitCompare [exampleEntryB, exampleEntryA, exampleEntryA2]
     ''Alice'' [] ''2024-01-02'' =
     Inr [\<lparr>pr_person_name = ''Alice'',
       dailySummaries =
         [\<lparr>ds_date = ''2024-01-01'', ds_duration_mins = 90,
           job_names = [''Maintenance'', ''Site Survey''], entryIds = [''e1'', ''e4'']\<rparr>],
       totalMins = 90, allIds = [''e1'', ''e4'']\<rparr>]"
  "reportData codeUnitCompare [exampleEntryA, exampleEntryA2, exampleEntryB]
     ''All'' ''2024-01-02'' [] =
     Inr [\<lparr>pr_person_name = ''Bob'',
       dailySummaries =
         [\<lparr>ds_date = ''2024-01-02'', ds_duration_mins = 45, job_names = [''Site Survey''],
           entryIds = [''e2'']\<rparr>],
       totalMins = 45, allIds = [''e2'']\<rparr>]"
  by (simp_all add: report_evaluation dateGetTime_examples arrayIndexOf_examples)

text \<open>
  A date that names an inherited member ends the loop with a \<open>TypeError\<close> when no
  range is set; with a range the filter drops the entry, as its date does not parse.
\<close>

lemma reportData_inherited_date:
  "reportData codeUnitCompare [exampleEntryA, exampleEntryB\<lparr>date := ''valueOf''\<rparr>] ''All'' [] []
     = Inl (TypeErrorAt ''valueOf'')"
  "filteredEntries ''All'' ''2024-01-01'' []  [exampleEntryA, exampleEntryB\<lparr>date := ''valueOf''\<rparr>]
     = [exampleEntryA]"
  by (simp_all add: report_evaluation dateGetTime_examples arrayIndexOf_examples)
     (simp_all add: dateGetTime_def)

text \<open>
  Claim C2 fails on the code for a person named \<open>constructor\<close>. Over the entries of
  Alice (60 and 30 minutes on 2024-01-01), of \<open>constructor\<close> (120 minutes on 2024-01-01)
  and of Bob (45 minutes on 2024-01-02), with all persons selected and the range
  2024-01-01 to 2024-01-01, the filter keeps the entries of Alice and of \<open>constructor\<close>
  and the grouping of the specification has two persons. \<open>reportData\<close> returns the report
  of Alice alone: \<open>personMap[entry.person_name]\<close> finds the member that every object
  inherits, no dictionary of days is created for the person, and the day's summary is
  written to that member. With \<open>constructor\<close> selected in the filter the report is empty.
\<close>

theorem reportData_constructor:
  "filteredEntries ''All'' ''2024-01-01'' ''2024-01-01''
       [exampleEntryA, exampleEntryC, exampleEntryA2, exampleEntryB]
     = [exampleEntryA, exampleEntryC, exampleEntryA2]
   \<and> map fst (grouped [exampleEntryA, exampleEntryC, exampleEntryA2]) = [''Alice'', ''constructor'']
   \<and> reportData codeUnitCompare [exampleEntryA, exampleEntryC, exampleEntryA2, exampleEntryB]
         ''All'' ''2024-01-01'' ''2024-01-01''
       = Inr [\<lparr>pr_person_name = ''Alice'',
               dailySummaries =
                 [\<lparr>ds_date = ''2024-01-01'', ds_duration_mins = 90,
                   job_names = [''Maintenance'', ''Site Survey''],
                   entryIds = [''e1'', ''e4'']\<rparr>],
               totalMins = 90, allIds = [''e1'', ''e4'']\<rparr>]
   \<and> filteredEntries ''constructor'' ''2024-01-01'' ''2024-01-02''
         [exampleEntryA, exampleEntryC, exampleEntryA2, exampleEntryB]
       = [exampleEntryC]
   \<and> reportData codeUnitCompare [exampleEntryA, exampleEntryC, exampleEntryA2, exampleEntryB]
         ''constructor'' ''2024-01-01'' ''2024-01-02''
       = Inr []"
  by (simp add: report_evaluation dateGetTime_examples arrayIndexOf_examples grouped_def)

section \<open>The Toronto date\<close>

lemma civilFromDays_examples:
  "civilFromDays 19723 = (2024, 1, 1)" "civilFromDays 19724 = (2024, 1, 2)"
  unfolding civilFromDays_def Let_def by simp_all

lemma isoDateString_examples:
  "isoDateString 19723 = ''2024-01-01''" "isoDateString 19724 = ''2024-01-02''"
  by (simp_all add: isoDateString_def civilFromDays_examples isoYear_def padStart_def
      toStringNat.simps digitChar_def)

text \<open>Whole seconds do not change the day an instant falls on.\<close>

lemma day_of_whole_seconds: "(x div 1000 * 1000) div 86400000 = x div (86400000 :: int)"
proof -
  have "(x div 1000 * 1000) div 86400000 = (x div 1000 * 1000) div 1000 div 86400"
    by (simp add: zdiv_zmult2_eq [symmetric])
  also have "\<dots> = x div 1000 div 86400" by simp
  also have "\<dots> = x div 86400000" by (simp add: zdiv_zmult2_eq [symmetric])
  finally show ?thesis .
qed

text \<open>
  On a host whose own zone is UTC at the wall-clock time in question, \<open>getTorontoISODate\<close>
  is the Toronto date. On any other host the date printed is that of the wall-clock time
  shifted by the host's offset.
\<close>

lemma getTorontoISODate_utc_host:
  "hostOffsetFor pf (torontoWallClock pf t) = 0 \<Longrightarrow> getTorontoISODate pf t = torontoToday pf t"
  by (simp add: getTorontoISODate_def getTorontoDate_def torontoToday_def torontoWallClock_def
      day_of_whole_seconds)

section \<open>Session engine\<close>

lemma foldl_add_duration:
  "foldl (\<lambda>acc curr. acc + duration_mins curr) a xs = a + sum_list (map duration_mins xs)"
  by (induction xs arbitrary: a) simp_all

text \<open>
  What \<open>handleClockIn\<close> does in every state: it installs a session for the person whose
  start time is the reading of \<open>Date.now()\<close> and whose accumulated milliseconds are 60000
  times the sum of \<open>duration_mins\<close> over the entries of that person dated
  \<open>getTorontoISODate()\<close>. Whatever session the person had before is replaced without an
  error, the sessions of all other persons are unchanged, and nothing else in the state
  changes.
\<close>

lemma handleClockIn_session:
  "activeSessions (handleClockIn pf person job st) person =
     Some \<lparr>s_person_name = person, s_job_name = job, startTime = real_of_int (dateNow pf),
           accumulatedMsBeforeThisSession =
             sum_list (map duration_mins
               (filter (\<lambda>e. person_name e = person \<and> date e = getTorontoISODate pf (newDate pf))
                  (entries st)))
             * 60000\<rparr>
   \<and> (\<forall>other. other \<noteq> person \<longrightarrow>
         activeSessions (handleClockIn pf person job st) other = activeSessions st other)
   \<and> handleClockIn pf person job st
       = st\<lparr>activeSessions := activeSessions (handleClockIn pf person job st)\<rparr>"
  by (simp add: handleClockIn_def Let_def foldl_add_duration)

lemma handleClockIn_example:
  "activeSessions (handleClockIn examplePlatform ''Alice'' ''Site Survey'' exampleState) ''Alice''
     = Some \<lparr>s_person_name = ''Alice'', s_job_name = ''Site Survey'', startTime = 1704105000000,
             accumulatedMsBeforeThisSession = 3600000\<rparr>
   \<and> activeSessions (handleClockIn examplePlatform ''Alice'' ''Site Survey'' exampleState) ''Bob''
     = None"
  by (simp add: handleClockIn_def Let_def examplePlatform_def exampleState_def exampleEntryA_def
      exampleEntryB_def getTorontoISODate_def getTorontoDate_def torontoWallClock_def
      isoDateString_examples)

text \<open>
  Claim C4 fails on the code at 20:30 Toronto time on 2024-01-01, on a host that runs in
  the Toronto zone, with one stored 60-minute entry of Alice dated 2024-01-01. The date in
  the operating time zone is 2024-01-01 and the stored minutes of Alice for that date make
  3600000 ms, but \<open>getTorontoISODate\<close> re-reads the Toronto wall-clock time as a time of
  the host and prints its UTC date, 2024-01-02, so the session that \<open>handleClockIn\<close>
  installs has accumulated 0 ms. The start time and the frame are as the claim states.
\<close>

theorem handleClockIn_evening:
  "torontoToday eveningPlatform (newDate eveningPlatform) = ''2024-01-01''
   \<and> sum_list (map duration_mins
         [e \<leftarrow> entries exampleState. person_name e = ''Alice'' \<and> date e = ''2024-01-01''])
       * 60000 = 3600000
   \<and> getTorontoISODate eveningPlatform (newDate eveningPlatform) = ''2024-01-02''
   \<and> activeSessions (handleClockIn eveningPlatform ''Alice'' ''Maintenance'' exampleState) ''Alice''
       = Some \<lparr>s_person_name = ''Alice'', s_job_name = ''Maintenance'',
               startTime = 1704159000000, accumulatedMsBeforeThisSession = 0\<rparr>
   \<and> activeSessions (handleClockIn eveningPlatform ''Alice'' ''Maintenance'' exampleState) ''Bob''
       = activeSessions exampleState ''Bob''"
  by (simp add: handleClockIn_def Let_def eveningPlatform_def exampleState_def exampleEntryA_def
      exampleEntryB_def getTorontoISODate_def getTorontoDate_def torontoWallClock_def
      torontoToday_def isoDateString_examples)

text \<open>
  What \<open>handleClockOut\<close> does for a person with a session of their own, signed in or
  not: it hands exactly one entry to \<open>upsertEntry\<close>, with the fresh identifier, the
  duration \<open>(now - startTime) / 60000\<close> without a lower bound and the lunch flag off, and
  removes the person's session; with a user signed in the entry is stored under its
  identifier. For a person with no session and a name that \<open>Object.prototype\<close> does not
  have, the state is unchanged.
\<close>

lemma handleClockOut_session:
  "activeSessions st person = Some session \<Longrightarrow>
   handleClockOut pf person st
     = Inr ((upsertEntry (clockOutEntry pf person session) st)
              \<lparr>activeSessions := (activeSessions st)(person := None)\<rparr>)"
  by (simp add: handleClockOut_def getProperty_def upsertEntry_def Let_def)

lemma clockOutEntry_fields:
  "id_entry (clockOutEntry pf person session) = randomUUID pf"
  "person_name (clockOutEntry pf person session) = person"
  "duration_mins (clockOutEntry pf person session)
     = (real_of_int (dateNow pf) - startTime session) / 60000"
  "lunch_30_min (clockOutEntry pf person session) = False"
  "real_of_int (dateNow pf) < startTime session \<Longrightarrow>
     duration_mins (clockOutEntry pf person session) < 0"
  by (simp_all add: clockOutEntry_def Let_def divide_neg_pos)

lemma upsertEntry_stored:
  "user st \<noteq> None \<Longrightarrow>
     upsertEntry e st = st\<lparr>entriesDb := (entriesDb st)(id_entry e \<mapsto> e)\<rparr>"
  "user st = None \<Longrightarrow> upsertEntry e st = st"
  by (auto simp: upsertEntry_def)

lemma handleClockOut_no_session:
  "activeSessions st person = None \<Longrightarrow> person \<notin> set objectPrototypeMembers \<Longrightarrow>
   handleClockOut pf person st = Inr st"
  by (simp add: handleClockOut_def getProperty_def)

lemma handleClockOut_example:
  "handleClockOut examplePlatform ''Bob'' exampleState = Inr exampleState
   \<and> handleClockOut examplePlatform ''Alice'' exampleState
       = Inr (exampleState
           \<lparr>entriesDb := (entriesDb exampleState)(''e3'' \<mapsto>
               \<lparr>id_entry = ''e3'', person_name = ''Alice'', job_name = ''Maintenance'',
                date = ''2024-01-01'', clock_in = ''05:00'', clock_out = ''05:30'',
                lunch_30_min = False, notes_entry = ''Session: Maintenance'',
                created_at = 1704105000001, duration_mins = 30\<rparr>),
             activeSessions := (activeSessions exampleState)(''Alice'' := None)\<rparr>)"
  by (simp add: handleClockOut_def getProperty_def objectPrototypeMembers_def upsertEntry_def
      clockOutEntry_def Let_def examplePlatform_def exampleState_def getTorontoISODate_def getTorontoDate_def
      getTorontoTimeString_def torontoWallClock_def isoDateString_examples padStart_def
      toStringNat.simps digitChar_def)

text \<open>
  Claim C3 fails on the code for a person named \<open>constructor\<close> who has no session. The
  sessions object has no property of that name, yet \<open>activeSessions[person]\<close> finds the
  member that every object inherits, \<open>if (!session) return\<close> is not taken, and
  \<open>handleClockOut\<close> goes on to call \<open>upsertEntry\<close> with an entry that has no job name,
  no duration and the clock-in text of an Invalid Date, where the claim has it do nothing.
\<close>

theorem handleClockOut_constructor:
  "activeSessions exampleState ''constructor'' = None
   \<and> handleClockOut examplePlatform ''constructor'' exampleState
       = Inl (MalformedUpsert
               \<lparr>p_id = Some ''e3'', p_person_name = Some ''constructor'', p_job_name = None,
                p_date = Some ''2024-01-01'', p_clock_in = Some ''Invalid Date'',
                p_clock_out = Some ''05:30'', p_lunch_30_min = Some False,
                p_notes = Some ''Session: undefined'', p_created_at = Some 1704105000001,
                p_duration_mins = None\<rparr>)
   \<and> handleClockOut examplePlatform ''constructor'' exampleState \<noteq> Inr exampleState"
  by (simp add: handleClockOut_def getProperty_def objectPrototypeMembers_def
      Let_def examplePlatform_def exampleState_def getTorontoISODate_def getTorontoDate_def
      getTorontoTimeString_def torontoWallClock_def isoDateString_examples padStart_def
      toStringNat.simps digitChar_def)

section \<open>Approval\<close>

lemma removeEntry_user [simp]: "user (removeEntry i st) = user st"
  by (simp add: removeEntry_def)

lemma fold_removeEntry_signed_out: "user st = None \<Longrightarrow> fold removeEntry ids st = st"
  by (induction ids arbitrary: st) (simp_all add: removeEntry_def)

lemma restrict_after_delete:
  "(m(i := None)) |` (- set ids) = m |` (- set (i # ids))"
  by (auto simp: restrict_map_def fun_eq_iff)

lemma fold_removeEntry:
  "user st \<noteq> None \<Longrightarrow>
   fold removeEntry ids st = st\<lparr>entriesDb := entriesDb st |` (- set ids)\<rparr>"
proof (induction ids arbitrary: st)
  case Nil
  then show ?case by simp
next
  case (Cons i ids)
  have "user (removeEntry i st) \<noteq> None" using Cons.prems by simp
  then have "fold removeEntry ids (removeEntry i st)
      = (removeEntry i st)\<lparr>entriesDb := entriesDb (removeEntry i st) |` (- set ids)\<rparr>"
    by (rule Cons.IH)
  also have "\<dots> = st\<lparr>entriesDb := (entriesDb st)(i := None) |` (- set ids)\<rparr>"
  proof -
    from Cons.prems obtain u where "user st = Some u" by auto
    then show ?thesis by (simp add: removeEntry_def del: restrict_fun_upd)
  qed
  also have "\<dots> = st\<lparr>entriesDb := entriesDb st |` (- set (i # ids))\<rparr>"
    by (simp only: restrict_after_delete)
  finally show ?case by simp
qed

lemma approveEntries_order:
  "set ids' = set ids \<Longrightarrow> approveEntries answer ids' st = approveEntries answer ids st"
  by (cases "user st = None")
     (simp_all add: approveEntries_def fold_removeEntry fold_removeEntry_signed_out)

text \<open>
  Claim C8. The store is the entries collection of the signed-in user, and \<open>approve\<close>
  is \<open>approveEntries\<close> once the user has confirmed its prompt. It removes from the
  store exactly the entries whose id is in the list: those ids are absent afterwards, every
  other id keeps its entry, and nothing else in the state changes. The result does not
  depend on the order or the repetitions of the ids. Nothing but the absence of the entry
  records an approval: the state after the call is the state before it with the collection
  restricted. When the user declines the prompt, and when no user is signed in (there is
  no collection then, and the report view is not shown), the state is unchanged.
\<close>

theorem approveEntries_spec:
  "(user st \<noteq> None \<longrightarrow>
      approveEntries True ids st = st\<lparr>entriesDb := entriesDb st |` (- set ids)\<rparr>
      \<and> (\<forall>i. i \<in> set ids \<longrightarrow> entriesDb (approveEntries True ids st) i = None)
      \<and> (\<forall>i. i \<notin> set ids \<longrightarrow> entriesDb (approveEntries True ids st) i = entriesDb st i))
   \<and> (set ids' = set ids \<longrightarrow> approveEntries answer ids' st = approveEntries answer ids st)
   \<and> approveEntries False ids st = st
   \<and> (user st = None \<longrightarrow> approveEntries answer ids st = st)"
proof -
  have a: "approveEntries True ids st = st\<lparr>entriesDb := entriesDb st |` (- set ids)\<rparr>"
    if "user st \<noteq> None"
    using that by (simp add: approveEntries_def fold_removeEntry)
  have b: "entriesDb (approveEntries True ids st) i = None" if "user st \<noteq> None" "i \<in> set ids" for i
    using that by (simp add: a)
  have c: "entriesDb (approveEntries True ids st) i = entriesDb st i"
    if "user st \<noteq> None" "i \<notin> set ids" for i
    using that by (simp add: a)
  have d: "approveEntries False ids st = st"
    by (simp add: approveEntries_def)
  have e: "approveEntries answer ids st = st" if "user st = None"
    using that by (simp add: approveEntries_def fold_removeEntry_signed_out)
  show ?thesis using a b c d e approveEntries_order [of ids' ids answer st] by blast
qed

theorem approveEntries_spec_witness:
  "entriesDb (approveEntries True [''e2'', ''zz''] exampleState) = [''e1'' \<mapsto> exampleEntryA]
   \<and> approveEntries True [''zz'', ''e2'', ''zz''] exampleState
       = approveEntries True [''e2'', ''zz''] exampleState
   \<and> approveEntries False [''e2''] exampleState = exampleState
   \<and> approveEntries True [''e2''] (exampleState\<lparr>user := None\<rparr>) = exampleState\<lparr>user := None\<rparr>"
proof -
  have u: "user exampleState \<noteq> None" by (simp add: exampleState_def)
  have s: "set [''zz'', ''e2'', ''zz''] = set [''e2'', ''zz'']" by auto
  note t = approveEntries_spec [where st = exampleState and ids = "[''e2'', ''zz'']"
      and ids' = "[''zz'', ''e2'', ''zz'']" and answer = True]
  from t u have "approveEntries True [''e2'', ''zz''] exampleState
      = exampleState\<lparr>entriesDb := entriesDb exampleState |` (- set [''e2'', ''zz''])\<rparr>"
    by simp
  then have a: "entriesDb (approveEntries True [''e2'', ''zz''] exampleState)
      = [''e1'' \<mapsto> exampleEntryA]"
    by (simp add: exampleState_def restrict_map_def fun_eq_iff)
  from t s have b: "approveEntries True [''zz'', ''e2'', ''zz''] exampleState
       = approveEntries True [''e2'', ''zz''] exampleState"
    by simp
  from approveEntries_spec [where st = exampleState and ids = "[''e2'']" and ids' = "[]"
      and answer = True]
  have c: "approveEntries False [''e2''] exampleState = exampleState" by simp
  from approveEntries_spec [where st = "exampleState\<lparr>user := None\<rparr>" and ids = "[''e2'']"
      and ids' = "[]" and answer = True]
  have d: "approveEntries True [''e2''] (exampleState\<lparr>user := None\<rparr>)
      = exampleState\<lparr>user := None\<rparr>" by simp
  from a b c d show ?thesis by simp
qed

section \<open>People and jobs registries\<close>

text \<open>
  Claim C10. \<open>addPerson\<close> with the empty string or a name already listed leaves the
  state unchanged; with a new non-empty name the list becomes the previous list plus that
  name, sorted ascending. A list without duplicates stays without duplicates, and a
  sorted list stays sorted. The same holds for \<open>addJob\<close> and the jobs list.
\<close>

theorem registries_spec:
  "(name = [] \<or> name \<in> set (people st) \<longrightarrow> addPerson name st = st)
   \<and> (name \<noteq> [] \<and> name \<notin> set (people st) \<longrightarrow>
        addPerson name st = st\<lparr>people := sort (people st @ [name])\<rparr>
        \<and> sorted (people (addPerson name st))
        \<and> mset (people (addPerson name st)) = mset (people st) + {#name#})
   \<and> (distinct (people st) \<longrightarrow> distinct (people (addPerson name st)))
   \<and> (sorted (people st) \<longrightarrow> sorted (people (addPerson name st)))
   \<and> (name = [] \<or> name \<in> set (jobs st) \<longrightarrow> addJob name st = st)
   \<and> (name \<noteq> [] \<and> name \<notin> set (jobs st) \<longrightarrow>
        addJob name st = st\<lparr>jobs := sort (jobs st @ [name])\<rparr>
        \<and> sorted (jobs (addJob name st))
        \<and> mset (jobs (addJob name st)) = mset (jobs st) + {#name#})
   \<and> (distinct (jobs st) \<longrightarrow> distinct (jobs (addJob name st)))
   \<and> (sorted (jobs st) \<longrightarrow> sorted (jobs (addJob name st)))"
  by (auto simp: addPerson_def addJob_def)

theorem registries_spec_witness:
  "people (addPerson ''Ann'' exampleState) = [''Alice'', ''Ann'', ''Bob'']
   \<and> addPerson ''Bob'' exampleState = exampleState
   \<and> addPerson '''' exampleState = exampleState
   \<and> jobs (addJob ''Painting'' exampleState)
       = [''General Construction'', ''Maintenance'', ''Painting'', ''Site Survey'']
   \<and> addJob ''Maintenance'' exampleState = exampleState"
  using registries_spec [of "''Ann''" exampleState] registries_spec [of "''Bob''" exampleState]
    registries_spec [of "''''" exampleState] registries_spec [of "''Painting''" exampleState]
    registries_spec [of "''Maintenance''" exampleState]
  by (simp add: exampleState_def)


end
